theory Spec2Isabelle
  imports Complex_Main "HOL-Library.Log_Nat" "HOL-Library.Monad_Syntax"
begin

section \<open>JavaScript values and errors\<close>

text \<open>
  The values that \<^verbatim>\<open>JSON.parse\<close> produces and that cross the server-action boundary.
  An object is the list of its own properties; a property read takes the first entry
  of a key (\<open>map_of\<close>), and a key with no entry reads as \<^verbatim>\<open>undefined\<close> (\<open>None\<close>).
  Numbers are the finite ones, kept exactly. A string is the list of its UTF-16 code
  units, and the model has the code units below 256, which are the values of the type
  \<open>char\<close>: \<open>CHR 0x20\<close> is the space and \<open>CHR 0xA0\<close> the no-break space U+00A0.
\<close>

datatype jsval =
    JNull
  | JBool bool
  | JNum rat
  | JStr string
  | JArr "jsval list"
  | JObj "(string \<times> jsval) list"

text \<open>What a \<^verbatim>\<open>throw\<close> carries: the two built-in errors the code can meet, and
  \<^verbatim>\<open>new Error(message)\<close>.\<close>

datatype js_error = SyntaxError | TypeError | Error string

text \<open>
  \<^verbatim>\<open>v.k\<close> for a key \<open>k\<close> that no built-in prototype defines (the code reads
  \<^verbatim>\<open>response\<close>, \<^verbatim>\<open>answer\<close> and \<^verbatim>\<open>suggestions\<close>): a TypeError on
  \<^verbatim>\<open>null\<close>, the own property of an object, \<^verbatim>\<open>undefined\<close> on every other value.
\<close>

fun getProp :: "jsval \<Rightarrow> string \<Rightarrow> js_error + jsval option" where
  "getProp JNull k = Inl TypeError"
| "getProp (JObj kvs) k = Inr (map_of kvs k)"
| "getProp v k = Inr None"

definition bind_err :: "'e + 'a \<Rightarrow> ('a \<Rightarrow> 'e + 'b) \<Rightarrow> 'e + 'b" where
  "bind_err r f = (case r of Inl e \<Rightarrow> Inl e | Inr x \<Rightarrow> f x)"

section \<open>Schema combinators (zod)\<close>

text \<open>
  \<^verbatim>\<open>safeParse\<close> of a schema returns the parsed data (\<open>Some\<close>) or fails (\<open>None\<close>).
  \<^verbatim>\<open>z.object\<close> accepts a non-null, non-array object, reads the declared keys and
  drops every other key.
\<close>

fun z_string :: "jsval \<Rightarrow> string option" where
  "z_string (JStr s) = Some s"
| "z_string _ = None"

fun z_number :: "jsval \<Rightarrow> rat option" where
  "z_number (JNum n) = Some n"
| "z_number _ = None"

fun z_array :: "(jsval \<Rightarrow> 'a option) \<Rightarrow> jsval \<Rightarrow> 'a list option" where
  "z_array p (JArr xs) = those (map p xs)"
| "z_array p _ = None"

fun z_required :: "(jsval \<Rightarrow> 'a option) \<Rightarrow> jsval option \<Rightarrow> 'a option" where
  "z_required p None = None"
| "z_required p (Some v) = p v"

fun z_optional :: "(jsval \<Rightarrow> 'a option) \<Rightarrow> jsval option \<Rightarrow> 'a option option" where
  "z_optional p None = Some None"
| "z_optional p (Some v) = map_option Some (p v)"

section \<open>The assistant's output and its validation\<close>

record GlobalAssistantOutput =
  response :: string
  suggestions :: "string list option"

fun GlobalAssistantOutputSchema :: "jsval \<Rightarrow> GlobalAssistantOutput option" where
  "GlobalAssistantOutputSchema (JObj kvs) =
     Option.bind (z_required z_string (map_of kvs ''response'')) (\<lambda>r.
     Option.bind (z_optional (z_array z_string) (map_of kvs ''suggestions'')) (\<lambda>s.
     Some \<lparr>response = r, suggestions = s\<rparr>))"
| "GlobalAssistantOutputSchema _ = None"

text \<open>\<^verbatim>\<open>xs.filter((s): s is string => typeof s === 'string')\<close>\<close>

fun filter_strings :: "jsval list \<Rightarrow> string list" where
  "filter_strings [] = []"
| "filter_strings (JStr s # xs) = s # filter_strings xs"
| "filter_strings (_ # xs) = filter_strings xs"

text \<open>
  The object literal built when the parsed value fails the schema
  (\<^verbatim>\<open>askGlobalAssistant\<close>, the branch \<^verbatim>\<open>!result.success\<close>). The property reads
  happen in the order of the source, and each can throw.
\<close>

definition salvage :: "string \<Rightarrow> jsval \<Rightarrow> js_error + GlobalAssistantOutput" where
  "salvage content rawParsed =
     bind_err (getProp rawParsed ''response'') (\<lambda>r.
     bind_err (case r of
                 Some (JStr s) \<Rightarrow> Inr s
               | _ \<Rightarrow> bind_err (getProp rawParsed ''answer'') (\<lambda>a.
                        Inr (case a of Some (JStr s) \<Rightarrow> s | _ \<Rightarrow> content))) (\<lambda>resp.
     bind_err (getProp rawParsed ''suggestions'') (\<lambda>sg.
     Inr \<lparr>response = resp,
          suggestions = (case sg of Some (JArr xs) \<Rightarrow> Some (filter_strings xs) | _ \<Rightarrow> None)\<rparr>)))"

text \<open>
  The body of the \<^verbatim>\<open>try\<close> block. \<open>JSON_parse\<close> is the built-in: \<open>None\<close> when it
  throws a SyntaxError, the parsed value otherwise.
\<close>

definition try_parse :: "(string \<Rightarrow> jsval option) \<Rightarrow> string \<Rightarrow> js_error + GlobalAssistantOutput" where
  "try_parse JSON_parse content =
     (case JSON_parse content of
        None \<Rightarrow> Inl SyntaxError
      | Some parsed \<Rightarrow>
          (case GlobalAssistantOutputSchema parsed of
             None \<Rightarrow> salvage content parsed
           | Some data \<Rightarrow> Inr data))"

text \<open>The \<^verbatim>\<open>try\<close> with its \<^verbatim>\<open>catch\<close>, which returns the raw content as the response.\<close>

definition validate_content :: "(string \<Rightarrow> jsval option) \<Rightarrow> string \<Rightarrow> js_error + GlobalAssistantOutput" where
  "validate_content JSON_parse content =
     (case try_parse JSON_parse content of
        Inl e \<Rightarrow> Inr \<lparr>response = content, suggestions = None\<rparr>
      | Inr out \<Rightarrow> Inr out)"

subsection \<open>The three tiers as the specification words them\<close>

text \<open>A field of the parsed value: present only on an object that has the key.\<close>

fun spec_field :: "jsval \<Rightarrow> string \<Rightarrow> jsval option" where
  "spec_field (JObj kvs) k = map_of kvs k"
| "spec_field _ k = None"

fun is_string :: "jsval \<Rightarrow> bool" where
  "is_string (JStr s) = True"
| "is_string _ = False"

text \<open>The shape \<^verbatim>\<open>{response: string, suggestions?: array of strings}\<close>.\<close>

definition spec_matches_shape :: "jsval \<Rightarrow> bool" where
  "spec_matches_shape j =
     (case j of
        JObj kvs \<Rightarrow>
          (case map_of kvs ''response'' of
             Some (JStr r) \<Rightarrow>
               (case map_of kvs ''suggestions'' of
                  None \<Rightarrow> True
                | Some (JArr xs) \<Rightarrow> list_all is_string xs
                | Some _ \<Rightarrow> False)
           | _ \<Rightarrow> False)
      | _ \<Rightarrow> False)"

definition spec_response :: "string \<Rightarrow> jsval \<Rightarrow> string" where
  "spec_response raw j =
     (case spec_field j ''response'' of
        Some (JStr s) \<Rightarrow> s
      | _ \<Rightarrow> (case spec_field j ''answer'' of Some (JStr s) \<Rightarrow> s | _ \<Rightarrow> raw))"

definition spec_suggestions :: "jsval \<Rightarrow> string list option" where
  "spec_suggestions j =
     (case spec_field j ''suggestions'' of
        Some (JArr xs) \<Rightarrow> Some (filter_strings xs)
      | _ \<Rightarrow> None)"

text \<open>
  Tier 1 returns the two fields as they are; on a value of the shape every entry of
  \<^verbatim>\<open>suggestions\<close> is a string, so \<open>spec_suggestions\<close> is the field itself.
\<close>

definition spec_repair :: "(string \<Rightarrow> jsval option) \<Rightarrow> string \<Rightarrow> GlobalAssistantOutput" where
  "spec_repair JSON_parse raw =
     (case JSON_parse raw of
        None \<Rightarrow> \<lparr>response = raw, suggestions = None\<rparr>
      | Some j \<Rightarrow> \<lparr>response = spec_response raw j, suggestions = spec_suggestions j\<rparr>)"

text \<open>An output as the JavaScript object it is; an absent field has no key.\<close>

definition GlobalAssistantOutput_obj :: "GlobalAssistantOutput \<Rightarrow> jsval" where
  "GlobalAssistantOutput_obj out =
     JObj ((''response'', JStr (response out))
           # (case suggestions out of
                None \<Rightarrow> []
              | Some xs \<Rightarrow> [(''suggestions'', JArr (map JStr xs))]))"

section \<open>The assistant's input\<close>

datatype PageContext = Dashboard | Medications | Reports

datatype Status = Taken | Missed | Skipped

record Schedule =
  frequency :: string
  schedule_times :: "string list"

record Medication =
  name :: string
  dosage :: string
  schedule :: Schedule

record IntakeLog =
  medicationName :: string
  time :: string
  status :: Status

record AdherenceStats =
  totalScheduled :: rat
  totalTaken :: rat
  adherenceRate :: rat

record GlobalAssistantInput =
  pageContext :: PageContext
  userMessage :: string
  medications :: "Medication list"
  todayLogs :: "IntakeLog list option"
  adherenceStats :: "AdherenceStats option"

fun z_object :: "((string \<Rightarrow> jsval option) \<Rightarrow> 'a option) \<Rightarrow> jsval \<Rightarrow> 'a option" where
  "z_object f (JObj kvs) = f (map_of kvs)"
| "z_object f _ = None"

text \<open>\<^verbatim>\<open>z.string().min(1)\<close>\<close>

fun z_string_min1 :: "jsval \<Rightarrow> string option" where
  "z_string_min1 (JStr s) = (if 1 \<le> length s then Some s else None)"
| "z_string_min1 _ = None"

text \<open>\<^verbatim>\<open>z.enum(['dashboard', 'medications', 'reports'])\<close>\<close>

fun z_PageContext :: "jsval \<Rightarrow> PageContext option" where
  "z_PageContext (JStr s) =
     (if s = ''dashboard'' then Some Dashboard
      else if s = ''medications'' then Some Medications
      else if s = ''reports'' then Some Reports
      else None)"
| "z_PageContext _ = None"

text \<open>\<^verbatim>\<open>z.enum(['taken', 'missed', 'skipped'])\<close>\<close>

fun z_Status :: "jsval \<Rightarrow> Status option" where
  "z_Status (JStr s) =
     (if s = ''taken'' then Some Taken
      else if s = ''missed'' then Some Missed
      else if s = ''skipped'' then Some Skipped
      else None)"
| "z_Status _ = None"

definition z_Schedule :: "jsval \<Rightarrow> Schedule option" where
  "z_Schedule = z_object (\<lambda>get. do {
     f \<leftarrow> z_required z_string (get ''frequency'');
     ts \<leftarrow> z_required (z_array z_string) (get ''times'');
     Some \<lparr>frequency = f, schedule_times = ts\<rparr> })"

definition z_Medication :: "jsval \<Rightarrow> Medication option" where
  "z_Medication = z_object (\<lambda>get. do {
     n \<leftarrow> z_required z_string (get ''name'');
     d \<leftarrow> z_required z_string (get ''dosage'');
     s \<leftarrow> z_required z_Schedule (get ''schedule'');
     Some \<lparr>name = n, dosage = d, schedule = s\<rparr> })"

definition z_IntakeLog :: "jsval \<Rightarrow> IntakeLog option" where
  "z_IntakeLog = z_object (\<lambda>get. do {
     m \<leftarrow> z_required z_string (get ''medicationName'');
     t \<leftarrow> z_required z_string (get ''time'');
     s \<leftarrow> z_required z_Status (get ''status'');
     Some \<lparr>medicationName = m, time = t, status = s\<rparr> })"

definition z_AdherenceStats :: "jsval \<Rightarrow> AdherenceStats option" where
  "z_AdherenceStats = z_object (\<lambda>get. do {
     s \<leftarrow> z_required z_number (get ''totalScheduled'');
     t \<leftarrow> z_required z_number (get ''totalTaken'');
     r \<leftarrow> z_required z_number (get ''adherenceRate'');
     Some \<lparr>totalScheduled = s, totalTaken = t, adherenceRate = r\<rparr> })"

text \<open>
  The two input schemas of the source have the same fields and differ in the schema of
  \<^verbatim>\<open>userMessage\<close> only, which is the parameter here.
\<close>

definition input_schema :: "(jsval \<Rightarrow> string option) \<Rightarrow> jsval \<Rightarrow> GlobalAssistantInput option" where
  "input_schema z_message = z_object (\<lambda>get. do {
     pc \<leftarrow> z_required z_PageContext (get ''pageContext'');
     msg \<leftarrow> z_required z_message (get ''userMessage'');
     meds \<leftarrow> z_required (z_array z_Medication) (get ''medications'');
     logs \<leftarrow> z_optional (z_array z_IntakeLog) (get ''todayLogs'');
     stats \<leftarrow> z_optional z_AdherenceStats (get ''adherenceStats'');
     Some \<lparr>pageContext = pc, userMessage = msg, medications = meds,
           todayLogs = logs, adherenceStats = stats\<rparr> })"

text \<open>The schema of the server action: \<^verbatim>\<open>userMessage: z.string().min(1)\<close>.\<close>

definition GlobalAssistantActionInput :: "jsval \<Rightarrow> GlobalAssistantInput option" where
  "GlobalAssistantActionInput = input_schema z_string_min1"

text \<open>The schema of the flow: \<^verbatim>\<open>userMessage: z.string()\<close>.\<close>

definition GlobalAssistantInputSchema :: "jsval \<Rightarrow> GlobalAssistantInput option" where
  "GlobalAssistantInputSchema = input_schema z_string"

subsection \<open>The input as a JavaScript object\<close>

fun PageContext_str :: "PageContext \<Rightarrow> string" where
  "PageContext_str Dashboard = ''dashboard''"
| "PageContext_str Medications = ''medications''"
| "PageContext_str Reports = ''reports''"

fun Status_str :: "Status \<Rightarrow> string" where
  "Status_str Taken = ''taken''"
| "Status_str Missed = ''missed''"
| "Status_str Skipped = ''skipped''"

definition Schedule_obj :: "Schedule \<Rightarrow> jsval" where
  "Schedule_obj s =
     JObj [(''frequency'', JStr (frequency s)), (''times'', JArr (map JStr (schedule_times s)))]"

definition Medication_obj :: "Medication \<Rightarrow> jsval" where
  "Medication_obj m =
     JObj [(''name'', JStr (name m)), (''dosage'', JStr (dosage m)),
           (''schedule'', Schedule_obj (schedule m))]"

definition IntakeLog_obj :: "IntakeLog \<Rightarrow> jsval" where
  "IntakeLog_obj l =
     JObj [(''medicationName'', JStr (medicationName l)), (''time'', JStr (time l)),
           (''status'', JStr (Status_str (status l)))]"

definition AdherenceStats_obj :: "AdherenceStats \<Rightarrow> jsval" where
  "AdherenceStats_obj s =
     JObj [(''totalScheduled'', JNum (totalScheduled s)), (''totalTaken'', JNum (totalTaken s)),
           (''adherenceRate'', JNum (adherenceRate s))]"

text \<open>A key whose value is \<^verbatim>\<open>undefined\<close> is left out.\<close>

definition GlobalAssistantInput_obj :: "GlobalAssistantInput \<Rightarrow> jsval" where
  "GlobalAssistantInput_obj i =
     JObj ([(''pageContext'', JStr (PageContext_str (pageContext i))),
            (''userMessage'', JStr (userMessage i)),
            (''medications'', JArr (map Medication_obj (medications i)))]
           @ (case todayLogs i of
                None \<Rightarrow> []
              | Some ls \<Rightarrow> [(''todayLogs'', JArr (map IntakeLog_obj ls))])
           @ (case adherenceStats i of
                None \<Rightarrow> []
              | Some s \<Rightarrow> [(''adherenceStats'', AdherenceStats_obj s)]))"

section \<open>Prompt composition\<close>

text \<open>\<^verbatim>\<open>parts.join(sep)\<close>\<close>

fun join :: "string \<Rightarrow> string list \<Rightarrow> string" where
  "join sep [] = []"
| "join sep [x] = x"
| "join sep (x # y # ys) = x @ sep @ join sep (y # ys)"

definition join_lines :: "string list \<Rightarrow> string" where
  "join_lines ls = join [CHR 0x0A] ls"

definition jsonInstructions :: string where
  "jsonInstructions = join_lines
     ['''',
      '''',
      ''IMPORTANT: You must respond in JSON format with this structure:'',
      ''{'',
      ''  \"response\": \"Your helpful response here\",'',
      ''  \"suggestions\": [\"Follow-up question 1?\", \"Follow-up question 2?\"]'',
      ''}'',
      '''',
      ''The \"suggestions\" array should contain 2-3 short follow-up questions the user might want to ask next.'']"

fun systemPrompts :: "PageContext \<Rightarrow> string" where
  "systemPrompts Dashboard = join_lines
     [''You are PillPal AI, a friendly medication assistant helping users with their daily medication routine.'',
      '''',
      ''You're currently on the DASHBOARD page where users see:'',
      ''- Today's medication schedule'',
      ''- Quick adherence overview'',
      '''',
      ''Your role:'',
      ''1. Answer questions about today's medications and schedule'',
      ''2. Provide reminders and encouragement for medication adherence'',
      ''3. Offer general health tips related to their medications'',
      ''4. Help users understand their daily routine'',
      '''',
      ''Keep responses concise, friendly, and actionable. Use bullet points for clarity when listing multiple items.''] @ jsonInstructions"
| "systemPrompts Medications = join_lines
     [''You are PillPal AI, a knowledgeable medication assistant helping users manage their medications.'',
      '''',
      ''You're currently on the MEDICATIONS page where users can:'',
      ''- View and manage all their medications'',
      ''- See dosages and schedules'',
      ''- Access smart schedule suggestions'',
      '''',
      ''Your role:'',
      ''1. Answer questions about specific medications (side effects, interactions, timing)'',
      ''2. Explain pharmacological best practices for medication timing'',
      ''3. Help users understand their medication regimen'',
      ''4. Provide guidance on medication management'',
      '''',
      ''Always emphasize that users should consult their healthcare provider for medical advice.'',
      ''Keep responses informative but accessible.''] @ jsonInstructions"
| "systemPrompts Reports = join_lines
     [''You are PillPal AI, an insightful medication adherence analyst helping users understand their patterns.'',
      '''',
      ''You're currently on the REPORTS page where users see:'',
      ''- Monthly adherence charts'',
      ''- Calendar view of logged doses'',
      ''- Historical medication data'',
      '''',
      ''Your role:'',
      ''1. Explain adherence patterns and trends'',
      ''2. Provide insights on medication-taking behavior'',
      ''3. Suggest ways to improve adherence'',
      ''4. Help users understand the importance of consistency'',
      '''',
      ''Be encouraging and constructive. Focus on progress and actionable improvements.'',
      ''Keep responses motivating and data-driven.''] @ jsonInstructions"

declare systemPrompts.simps [simp del]

text \<open>
  The environment the flow runs in: the provider credential, the built-in
  \<^verbatim>\<open>JSON.parse\<close>, the provider call
  (\<^verbatim>\<open>openai.chat.completions.create\<close> on a system and a user prompt: it throws, or
  gives the content of the first choice, \<open>None\<close> when that is \<^verbatim>\<open>null\<close> or
  \<^verbatim>\<open>undefined\<close>), and the two locale-dependent renderings the user prompt uses.
\<close>

record runtime =
  OPENAI_API_KEY :: "string option"
  JSON_parse :: "string \<Rightarrow> jsval option"
  create_completion :: "string \<Rightarrow> string \<Rightarrow> js_error + string option"
  toLocaleTimeString :: "string \<Rightarrow> string"
  number_toString :: "rat \<Rightarrow> string"

definition buildUserPrompt :: "runtime \<Rightarrow> GlobalAssistantInput \<Rightarrow> string" where
  "buildUserPrompt rt i =
     (let medicationsList =
            (if 0 < length (medications i)
             then join_lines (map (\<lambda>m. ''- '' @ name m @ '' ('' @ dosage m @ ''): ''
                                     @ join '', '' (schedule_times (schedule m))) (medications i))
             else ''No medications added yet.'');
          contextInfo0 = join_lines [''Current Medications:'', medicationsList, '''', ''''];
          contextInfo1 =
            (case todayLogs i of
               None \<Rightarrow> contextInfo0
             | Some ls \<Rightarrow>
                 if 0 < length ls
                 then contextInfo0 @ join_lines
                        [''Today's Activity:'',
                         join_lines (map (\<lambda>l. ''- '' @ medicationName l @ '': ''
                                           @ Status_str (status l) @ '' at ''
                                           @ toLocaleTimeString rt (time l)) ls),
                         '''', '''']
                 else contextInfo0);
          contextInfo2 =
            (case adherenceStats i of
               None \<Rightarrow> contextInfo1
             | Some s \<Rightarrow>
                 contextInfo1 @ join_lines
                   [''Adherence Stats:'',
                    ''- Total scheduled: '' @ number_toString rt (totalScheduled s),
                    ''- Total taken: '' @ number_toString rt (totalTaken s),
                    ''- Adherence rate: '' @ number_toString rt (adherenceRate s) @ ''%'',
                    '''', ''''])
      in contextInfo2 @ ''User Question: '' @ userMessage i)"

section \<open>The flow and the server action\<close>

text \<open>
  Both return what the call gives (thrown error on the left) together with the provider
  requests it sent, each a pair of system and user prompt; the model name and the
  response format are the same in every request.
\<close>

text \<open>
  \<^verbatim>\<open>askGlobalAssistant\<close> receives the data the server action has parsed and checks
  the object against its own schema once more, after the credential.
\<close>

type_synonym provider_request = "string \<times> string"

definition askGlobalAssistant ::
  "runtime \<Rightarrow> GlobalAssistantInput \<Rightarrow> (js_error + GlobalAssistantOutput) \<times> provider_request list" where
  "askGlobalAssistant rt i =
     (if (case OPENAI_API_KEY rt of None \<Rightarrow> True | Some apiKey \<Rightarrow> apiKey = [])
      then (Inl (Error ''OPENAI_API_KEY is not set.''), [])
      else if GlobalAssistantInputSchema (GlobalAssistantInput_obj i) = None
      then (Inl (Error ''Invalid input for global assistant.''), [])
      else
        (let systemPrompt = systemPrompts (pageContext i);
             userPrompt = buildUserPrompt rt i;
             sent = [(systemPrompt, userPrompt)]
         in case create_completion rt systemPrompt userPrompt of
              Inl e \<Rightarrow> (Inl e, sent)
            | Inr None \<Rightarrow> (Inl (Error ''No response from OpenAI.''), sent)
            | Inr (Some content) \<Rightarrow>
                if content = [] then (Inl (Error ''No response from OpenAI.''), sent)
                else (validate_content (JSON_parse rt) content, sent)))"

text \<open>What the server action returns: \<^verbatim>\<open>{error: string}\<close> or the output.\<close>

datatype action_result = Failed string | Answered GlobalAssistantOutput

definition getGlobalAssistantResponse ::
  "runtime \<Rightarrow> jsval \<Rightarrow> (js_error + action_result) \<times> provider_request list" where
  "getGlobalAssistantResponse rt i =
     (case GlobalAssistantActionInput i of
        None \<Rightarrow> (Inl (Error ''Invalid input.''), [])
      | Some data \<Rightarrow>
          (case askGlobalAssistant rt data of
             (Inl e, sent) \<Rightarrow> (Inr (Failed ''Failed to get response. Please try again.''), sent)
           | (Inr result, sent) \<Rightarrow> (Inr (Answered result), sent)))"

section \<open>The assistant component\<close>

datatype Role = User | Assistant

record Message =
  role :: Role
  content :: string
  msg_suggestions :: "string list option"

text \<open>
  What one render of \<^verbatim>\<open>GlobalAIAssistant\<close> hands to its handlers: the page context of
  the current route, the medications and logs of the store, and the clock. A
  \<^verbatim>\<open>Date\<close> is its time value, the milliseconds since the epoch; \<open>Date_parse\<close> is
  \<^verbatim>\<open>new Date(string)\<close>, \<open>None\<close> for an Invalid Date; \<open>toDateString\<close> is the
  built-in rendering of the local calendar day. The time zone of the host is given by
  its offsets in milliseconds: \<open>LocalTZA_of_utc t\<close> is the offset of local time from UTC
  at the instant \<open>t\<close>, and \<open>LocalTZA_of_local t\<close> is the offset the host takes for the
  local time \<open>t\<close> (at a change of offset a local time can occur twice or not at all,
  and the host chooses).
\<close>

record render =
  r_pageContext :: PageContext
  r_medications :: "Medication list"
  r_logs :: "IntakeLog list"
  r_now :: int
  Date_parse :: "string \<Rightarrow> int option"
  toDateString :: "int \<Rightarrow> string"
  LocalTZA_of_utc :: "int \<Rightarrow> int"
  LocalTZA_of_local :: "int \<Rightarrow> int"

subsection \<open>Double-precision arithmetic\<close>

text \<open>
  JavaScript numbers are IEEE 754 doubles. A double is kept as the rational it denotes;
  \<open>fl\<close> rounds a rational to the nearest double (53-bit significand, ties to even),
  for magnitudes in the normal range, which is where the quotients and products below
  lie. \<open>ilog2 x\<close> is the exponent \<open>e\<close> with \<open>2^e \<le> x < 2^(e+1)\<close>, for \<open>0 < x\<close>.
\<close>

definition ilog2 :: "rat \<Rightarrow> int" where
  "ilog2 x =
     (if 1 \<le> x then int (floorlog 2 (nat \<lfloor>x\<rfloor>)) - 1
      else - int (floorlog 2 (nat (\<lceil>1 / x\<rceil> - 1))))"

definition pow2 :: "int \<Rightarrow> rat" where
  "pow2 e = (if 0 \<le> e then 2 ^ nat e else 1 / 2 ^ nat (- e))"

definition roundTiesToEven :: "rat \<Rightarrow> int" where
  "roundTiesToEven m =
     (let f = \<lfloor>m\<rfloor>; d = m - of_int f
      in if d < 1 / 2 then f
         else if 1 / 2 < d then f + 1
         else if even f then f else f + 1)"

definition fl :: "rat \<Rightarrow> rat" where
  "fl x =
     (if x = 0 then 0
      else let a = \<bar>x\<bar>; u = pow2 (ilog2 a - 52)
           in sgn x * of_int (roundTiesToEven (a / u)) * u)"

text \<open>\<^verbatim>\<open>a / b\<close> and \<^verbatim>\<open>a * b\<close> on doubles, \<open>b\<close> not zero.\<close>

definition js_div :: "rat \<Rightarrow> rat \<Rightarrow> rat" where
  "js_div a b = fl (a / b)"

definition js_mul :: "rat \<Rightarrow> rat \<Rightarrow> rat" where
  "js_mul a b = fl (a * b)"

text \<open>\<^verbatim>\<open>Math.round\<close>: the nearest integer, a tie going up.\<close>

definition Math_round :: "rat \<Rightarrow> int" where
  "Math_round x = \<lfloor>x + 1 / 2\<rfloor>"

subsection \<open>Adherence statistics and today's logs\<close>

text \<open>
  The abstract operations of \<^verbatim>\<open>Date\<close>: \<^verbatim>\<open>LocalTime\<close> takes a time value to local
  time, \<^verbatim>\<open>UTC\<close> takes a local time back, and \<^verbatim>\<open>TimeClip\<close> makes a time value
  outside the range of \<^verbatim>\<open>Date\<close> an Invalid Date (\<open>None\<close>).
\<close>

definition LocalTime :: "render \<Rightarrow> int \<Rightarrow> int" where
  "LocalTime rd t = t + LocalTZA_of_utc rd t"

definition UTC :: "render \<Rightarrow> int \<Rightarrow> int" where
  "UTC rd t = t - LocalTZA_of_local rd t"

definition TimeClip :: "int \<Rightarrow> int option" where
  "TimeClip t = (if \<bar>t\<bar> \<le> 8640000000000000 then Some t else None)"

text \<open>
  \<^verbatim>\<open>thirtyDaysAgo = new Date(today); thirtyDaysAgo.setDate(today.getDate() - 30)\<close>.
  \<^verbatim>\<open>setDate\<close> works on the local time of the date: it keeps the year, the month and
  the time within the day, and sets the day of the month, here to thirty less than it
  is, which moves the local time back by thirty days of 86400000 ms; the result is
  taken back to UTC with the offset of the host at that local time, and clipped.
\<close>

definition thirtyDaysAgo :: "render \<Rightarrow> int option" where
  "thirtyDaysAgo rd = TimeClip (UTC rd (LocalTime rd (r_now rd) - 30 * 86400000))"

text \<open>\<^verbatim>\<open>logDate >= thirtyDaysAgo\<close>; a comparison with an Invalid Date is false.\<close>

definition recentLogs :: "render \<Rightarrow> IntakeLog list" where
  "recentLogs rd =
     filter (\<lambda>log. case Date_parse rd (time log) of
                      None \<Rightarrow> False
                    | Some logDate \<Rightarrow>
                        (case thirtyDaysAgo rd of
                           None \<Rightarrow> False
                         | Some bound \<Rightarrow> bound \<le> logDate)) (r_logs rd)"

definition calculateAdherenceStats :: "render \<Rightarrow> AdherenceStats" where
  "calculateAdherenceStats rd =
     (let totalTaken = length (filter (\<lambda>log. status log = Taken) (recentLogs rd));
          totalScheduled = (if length (recentLogs rd) = 0 then 1 else length (recentLogs rd));
          adherenceRate = Math_round (js_mul (js_div (of_nat totalTaken) (of_nat totalScheduled)) 100)
      in \<lparr>totalScheduled = of_nat totalScheduled, totalTaken = of_nat totalTaken,
           adherenceRate = of_int adherenceRate\<rparr>)"

text \<open>The \<^verbatim>\<open>toDateString()\<close> of an Invalid Date is the text \<^verbatim>\<open>Invalid Date\<close>.\<close>

definition getTodayLogs :: "render \<Rightarrow> IntakeLog list" where
  "getTodayLogs rd =
     map (\<lambda>log. \<lparr>medicationName = medicationName log, time = time log, status = status log\<rparr>)
       (filter (\<lambda>log. (case Date_parse rd (time log) of
                          None \<Rightarrow> ''Invalid Date''
                        | Some d \<Rightarrow> toDateString rd d) = toDateString rd (r_now rd))
          (r_logs rd))"

subsection \<open>The adherence statistics as the specification words them\<close>

text \<open>The trailing 30-day window ending today: from thirty days back up to now.\<close>

definition spec_window :: "render \<Rightarrow> IntakeLog list" where
  "spec_window rd =
     filter (\<lambda>log. case Date_parse rd (time log) of
                      None \<Rightarrow> False
                    | Some t \<Rightarrow> r_now rd - 30 * 86400000 \<le> t \<and> t \<le> r_now rd) (r_logs rd)"

definition spec_totalTaken :: "render \<Rightarrow> nat" where
  "spec_totalTaken rd = length (filter (\<lambda>log. status log = Taken) (spec_window rd))"

definition spec_totalScheduled :: "render \<Rightarrow> nat" where
  "spec_totalScheduled rd = max 1 (length (spec_window rd))"

subsection \<open>Route, page information and default suggestions\<close>

definition pageContextMap :: "(string \<times> PageContext) list" where
  "pageContextMap =
     [(''/dashboard'', Dashboard), (''/medications'', Medications), (''/reports'', Reports)]"

text \<open>
  \<^verbatim>\<open>pageContextMap\<close> is an object literal, so a read of a key it does not own goes to
  \<^verbatim>\<open>Object.prototype\<close>, whose members are these.
\<close>

definition Object_prototype_keys :: "string list" where
  "Object_prototype_keys =
     [''constructor'', ''__defineGetter__'', ''__defineSetter__'', ''hasOwnProperty'',
      ''__lookupGetter__'', ''__lookupSetter__'', ''isPrototypeOf'', ''propertyIsEnumerable'',
      ''toString'', ''valueOf'', ''__proto__'', ''toLocaleString'']"

text \<open>
  \<^verbatim>\<open>pageContextMap[pathname] || 'dashboard'\<close>. \<open>None\<close> stands for an inherited member of
  \<^verbatim>\<open>Object.prototype\<close>: a truthy value that is no page context.
\<close>

definition pageContext_of :: "string \<Rightarrow> PageContext option" where
  "pageContext_of pathname =
     (case map_of pageContextMap pathname of
        Some pc \<Rightarrow> Some pc
      | None \<Rightarrow> if pathname \<in> set Object_prototype_keys then None else Some Dashboard)"

record PageInfo =
  label :: string
  description :: string
  placeholder :: string

fun pageInfo :: "PageContext \<Rightarrow> PageInfo" where
  "pageInfo Dashboard =
     \<lparr>label = ''Dashboard'',
      description = ''I can help you with today's schedule and medications.'',
      placeholder = ''Ask about today's medications, reminders, or health tips...''\<rparr>"
| "pageInfo Medications =
     \<lparr>label = ''Medications'',
      description = ''I can answer questions about your medications.'',
      placeholder = ''Ask about side effects, timing, interactions...''\<rparr>"
| "pageInfo Reports =
     \<lparr>label = ''Reports'',
      description = ''I can help you understand your adherence patterns.'',
      placeholder = ''Ask about your adherence trends or how to improve...''\<rparr>"

text \<open>The suggestion chips rendered while the transcript is empty.\<close>

fun defaultSuggestions :: "PageContext \<Rightarrow> string list" where
  "defaultSuggestions Dashboard =
     [''What medications do I have today?'', ''How am I doing with my adherence?'']"
| "defaultSuggestions Medications =
     [''What are common medication interactions?'', ''Tips for remembering to take my pills'']"
| "defaultSuggestions Reports =
     [''How can I improve my adherence?'', ''Why is medication adherence important?'']"

subsection \<open>The conversation state and its handlers\<close>

text \<open>
  The component's state: \<^verbatim>\<open>messages\<close>, \<^verbatim>\<open>input\<close> and the \<^verbatim>\<open>isPending\<close> flag of
  \<^verbatim>\<open>useTransition\<close>, which is true from \<^verbatim>\<open>startTransition\<close> until the asynchronous
  callback has settled. \<open>inflight\<close> is the bookkeeping of the model: the arguments of
  the calls of the server action that have been made and have not settled.
\<close>

record assistant_state =
  messages :: "Message list"
  input :: string
  isPending :: bool
  inflight :: "GlobalAssistantInput list"

definition initial_state :: assistant_state where
  "initial_state = \<lparr>messages = [], input = [], isPending = False, inflight = []\<rparr>"

text \<open>
  The white space and line terminators that \<^verbatim>\<open>String.prototype.trim\<close> strips are
  U+0009 to U+000D, U+0020, U+00A0, U+1680, U+2000 to U+200A, U+2028, U+2029, U+202F,
  U+205F, U+3000 and U+FEFF. Those among the code units of the model are tab, line feed,
  vertical tab, form feed, carriage return, space and no-break space.
\<close>

definition isWhiteSpace :: "char \<Rightarrow> bool" where
  "isWhiteSpace c =
     (c \<in> set [CHR 0x09, CHR 0x0A, CHR 0x0B, CHR 0x0C, CHR 0x0D, CHR 0x20, CHR 0xA0])"

text \<open>\<^verbatim>\<open>String.prototype.trim\<close>: the white space of both ends is dropped.\<close>

definition trim :: "string \<Rightarrow> string" where
  "trim s = rev (dropWhile isWhiteSpace (rev (dropWhile isWhiteSpace s)))"

text \<open>The argument of the call of \<^verbatim>\<open>getGlobalAssistantResponse\<close> in \<^verbatim>\<open>handleSend\<close>.\<close>

definition request :: "render \<Rightarrow> string \<Rightarrow> GlobalAssistantInput" where
  "request rd text_sent =
     \<lparr>pageContext = r_pageContext rd,
      userMessage = text_sent,
      medications =
        map (\<lambda>m. \<lparr>name = name m, dosage = dosage m,
                   schedule = \<lparr>frequency = frequency (schedule m),
                               schedule_times = schedule_times (schedule m)\<rparr>\<rparr>)
          (r_medications rd),
      todayLogs = Some (getTodayLogs rd),
      adherenceStats = Some (calculateAdherenceStats rd)\<rparr>"

text \<open>
  \<^verbatim>\<open>const text = messageText || input.trim()\<close>: the draft, trimmed, when the argument
  is missing or the empty string.
\<close>

definition message_text :: "string option \<Rightarrow> string \<Rightarrow> string" where
  "message_text messageText draft =
     (case messageText of
        None \<Rightarrow> trim draft
      | Some m \<Rightarrow> if m = [] then trim draft else m)"

text \<open>\<^verbatim>\<open>handleSend(messageText?)\<close> up to the point where the call has been made.\<close>

definition handleSend :: "render \<Rightarrow> string option \<Rightarrow> assistant_state \<Rightarrow> assistant_state" where
  "handleSend rd messageText st =
     (let text_sent = message_text messageText (input st)
      in if text_sent = [] \<or> isPending st then st
         else st\<lparr>messages := messages st @ [\<lparr>role = User, content = text_sent, msg_suggestions = None\<rparr>],
                 input := [],
                 isPending := True,
                 inflight := inflight st @ [request rd text_sent]\<rparr>)"

definition handleSuggestionClick :: "render \<Rightarrow> string \<Rightarrow> assistant_state \<Rightarrow> assistant_state" where
  "handleSuggestionClick rd suggestion st = handleSend rd (Some suggestion) st"

text \<open>\<^verbatim>\<open>onChange={(e) => setInput(e.target.value)}\<close>\<close>

definition setInput :: "string \<Rightarrow> assistant_state \<Rightarrow> assistant_state" where
  "setInput s st = st\<lparr>input := s\<rparr>"

text \<open>The effect on \<^verbatim>\<open>[pathname]\<close>: \<^verbatim>\<open>setMessages([]); setInput('')\<close>.\<close>

definition resetOnPathChange :: "assistant_state \<Rightarrow> assistant_state" where
  "resetOnPathChange st = st\<lparr>messages := [], input := []\<rparr>"

text \<open>
  The assistant turn that the rest of the asynchronous callback appends, from what the
  awaited call gave: a thrown error (left), \<^verbatim>\<open>{error}\<close>, or an output.
\<close>

fun reply :: "js_error + action_result \<Rightarrow> Message" where
  "reply (Inr (Failed e)) =
     \<lparr>role = Assistant, content = ''Sorry, I encountered an error. Please try again.'',
      msg_suggestions = None\<rparr>"
| "reply (Inr (Answered result)) =
     \<lparr>role = Assistant, content = response result, msg_suggestions = suggestions result\<rparr>"
| "reply (Inl e) =
     \<lparr>role = Assistant, content = ''Sorry, something went wrong. Please try again.'',
      msg_suggestions = None\<rparr>"

text \<open>The callback settles: the turn is appended and the transition ends.\<close>

definition settle :: "js_error + action_result \<Rightarrow> assistant_state \<Rightarrow> assistant_state" where
  "settle res st =
     st\<lparr>messages := messages st @ [reply res], isPending := False, inflight := tl (inflight st)\<rparr>"

text \<open>What the call of the server action gives for a request, on a server \<open>rt\<close>.\<close>

definition served :: "runtime \<Rightarrow> GlobalAssistantInput \<Rightarrow> js_error + action_result" where
  "served rt req = fst (getGlobalAssistantResponse rt (GlobalAssistantInput_obj req))"

text \<open>
  The events of a session: typing, a submit of the draft, a click on a suggestion, the
  settling of the outstanding call, and a change of route. A call can settle only while
  one is outstanding.
\<close>

datatype event =
    Typed string
  | Submitted render
  | SuggestionClicked render string
  | Settled "js_error + action_result"
  | PathChanged

fun step :: "assistant_state \<Rightarrow> event \<Rightarrow> assistant_state" where
  "step st (Typed s) = setInput s st"
| "step st (Submitted rd) = handleSend rd None st"
| "step st (SuggestionClicked rd s) = handleSuggestionClick rd s st"
| "step st (Settled res) = (if inflight st = [] then st else settle res st)"
| "step st PathChanged = resetOnPathChange st"

definition run :: "event list \<Rightarrow> assistant_state" where
  "run evs = foldl step initial_state evs"

subsection \<open>The single-flight invariant\<close>

text \<open>At most one call is outstanding, and the flag is up exactly while one is.\<close>

definition single_flight :: "assistant_state \<Rightarrow> bool" where
  "single_flight st = (length (inflight st) \<le> 1 \<and> (isPending st = (inflight st \<noteq> [])))"

subsection \<open>Concrete environments for the scenarios\<close>

text \<open>A render on the dashboard with an empty store, on a host in UTC.\<close>

definition empty_render :: render where
  "empty_render =
     \<lparr>r_pageContext = Dashboard, r_medications = [], r_logs = [], r_now = 0,
      Date_parse = (\<lambda>s. None), toDateString = (\<lambda>t. []),
      LocalTZA_of_utc = (\<lambda>t. 0), LocalTZA_of_local = (\<lambda>t. 0)\<rparr>"

text \<open>A server whose credential is set and whose provider call throws.\<close>

definition failing_provider :: runtime where
  "failing_provider =
     \<lparr>OPENAI_API_KEY = Some ''sk-test'', JSON_parse = (\<lambda>s. None),
      create_completion = (\<lambda>s u. Inl (Error ''fetch failed'')),
      toLocaleTimeString = (\<lambda>s. s), number_toString = (\<lambda>n. [])\<rparr>"

text \<open>The same server without the credential.\<close>

definition missing_key :: runtime where
  "missing_key = failing_provider\<lparr>OPENAI_API_KEY := None\<rparr>"

text \<open>
  A store read at 2026-11-03T12:00Z, on a host in UTC, that holds one dose logged as
  taken with a time in 2099.
\<close>

definition future_log_render :: render where
  "future_log_render =
     \<lparr>r_pageContext = Reports, r_medications = [],
      r_logs = [\<lparr>medicationName = ''Aspirin'', time = ''2099-01-01T08:00:00.000Z'', status = Taken\<rparr>],
      r_now = 1793707200000,
      Date_parse = (\<lambda>s. if s = ''2099-01-01T08:00:00.000Z'' then Some 4070937600000 else None),
      toDateString = (\<lambda>t. []),
      LocalTZA_of_utc = (\<lambda>t. 0), LocalTZA_of_local = (\<lambda>t. 0)\<rparr>"

text \<open>
  A store read at the same instant, on a host in UTC, with eight entries of two days
  before, six of them taken, one entry of two months before and one whose time does not
  parse.
\<close>

definition eight_logs_render :: render where
  "eight_logs_render =
     \<lparr>r_pageContext = Reports, r_medications = [],
      r_logs =
        [\<lparr>medicationName = ''Aspirin'', time = ''2026-11-01T08:00:00.000Z'', status = Taken\<rparr>,
         \<lparr>medicationName = ''Aspirin'', time = ''2026-11-01T08:00:00.000Z'', status = Taken\<rparr>,
         \<lparr>medicationName = ''Aspirin'', time = ''2026-09-01T08:00:00.000Z'', status = Taken\<rparr>,
         \<lparr>medicationName = ''Aspirin'', time = ''2026-11-01T08:00:00.000Z'', status = Missed\<rparr>,
         \<lparr>medicationName = ''Statin'', time = ''2026-11-01T08:00:00.000Z'', status = Taken\<rparr>,
         \<lparr>medicationName = ''Statin'', time = ''2026-11-01T08:00:00.000Z'', status = Taken\<rparr>,
         \<lparr>medicationName = ''Statin'', time = ''the day before'', status = Taken\<rparr>,
         \<lparr>medicationName = ''Statin'', time = ''2026-11-01T08:00:00.000Z'', status = Skipped\<rparr>,
         \<lparr>medicationName = ''Statin'', time = ''2026-11-01T08:00:00.000Z'', status = Taken\<rparr>,
         \<lparr>medicationName = ''Statin'', time = ''2026-11-01T08:00:00.000Z'', status = Taken\<rparr>],
      r_now = 1793707200000,
      Date_parse =
        (\<lambda>s. if s = ''2026-11-01T08:00:00.000Z'' then Some 1793520000000
             else if s = ''2026-09-01T08:00:00.000Z'' then Some 1788249600000
             else None),
      toDateString = (\<lambda>t. []),
      LocalTZA_of_utc = (\<lambda>t. 0), LocalTZA_of_local = (\<lambda>t. 0)\<rparr>"

text \<open>
  A store read at the same instant on a host whose local time is four hours behind UTC
  until 2026-11-01T06:00Z and five hours behind from then on (02:00 local time, the end
  of daylight saving time in New York); of a local time that occurs twice the host takes
  the earlier instant. The store holds one dose taken at 2026-10-04T11:30Z, which is
  thirty days and half an hour before the read.
\<close>

definition new_york_render :: render where
  "new_york_render =
     \<lparr>r_pageContext = Reports, r_medications = [],
      r_logs = [\<lparr>medicationName = ''Aspirin'', time = ''2026-10-04T11:30:00.000Z'', status = Taken\<rparr>],
      r_now = 1793707200000,
      Date_parse = (\<lambda>s. if s = ''2026-10-04T11:30:00.000Z'' then Some 1791113400000 else None),
      toDateString = (\<lambda>t. []),
      LocalTZA_of_utc = (\<lambda>t. if t < 1793512800000 then - 14400000 else - 18000000),
      LocalTZA_of_local = (\<lambda>t. if t < 1793498400000 then - 14400000 else - 18000000)\<rparr>"

text \<open>
  \<^verbatim>\<open>JSON.parse\<close> on four texts: an object whose suggestions hold a number, an object
  with the field \<^verbatim>\<open>answer\<close> only, the text \<^verbatim>\<open>null\<close>, and, for every other text,
  a SyntaxError.
\<close>

definition example_parse :: "string \<Rightarrow> jsval option" where
  "example_parse s =
     (if s = ''{\"response\":\"ok\",\"suggestions\":[\"a\", 5, \"b\"]}''
      then Some (JObj [(''response'', JStr ''ok''),
                       (''suggestions'', JArr [JStr ''a'', JNum 5, JStr ''b''])])
      else if s = ''{\"answer\":\"Take with food\"}''
      then Some (JObj [(''answer'', JStr ''Take with food'')])
      else if s = ''null'' then Some JNull
      else None)"

section \<open>Schemas accept the objects built from typed inputs\<close>


lemma those_map_Some:
  "(\<And>x. x \<in> set xs \<Longrightarrow> p (f x) = Some x) \<Longrightarrow> those (map (\<lambda>x. p (f x)) xs) = Some xs"
  by (induction xs) simp_all

lemma z_Schedule_obj: "z_Schedule (Schedule_obj s) = Some s"
proof -
  have "those (map (\<lambda>x. z_string (JStr x)) (schedule_times s)) = Some (schedule_times s)"
    by (rule those_map_Some) simp
  then show ?thesis
    by (simp add: z_Schedule_def Schedule_obj_def comp_def)
qed

lemma z_Medication_obj: "z_Medication (Medication_obj m) = Some m"
  by (simp add: z_Medication_def Medication_obj_def z_Schedule_obj)

lemma z_Status_str: "z_Status (JStr (Status_str s)) = Some s"
  by (cases s) simp_all

lemma z_PageContext_str: "z_PageContext (JStr (PageContext_str p)) = Some p"
  by (cases p) simp_all

lemma z_IntakeLog_obj: "z_IntakeLog (IntakeLog_obj l) = Some l"
  by (simp add: z_IntakeLog_def IntakeLog_obj_def z_Status_str del: z_Status.simps)

lemma z_AdherenceStats_obj: "z_AdherenceStats (AdherenceStats_obj s) = Some s"
  by (simp add: z_AdherenceStats_def AdherenceStats_obj_def)

lemma those_Medication_obj: "those (map (z_Medication \<circ> Medication_obj) ms) = Some ms"
  unfolding comp_def by (rule those_map_Some) (simp add: z_Medication_obj)

lemma those_IntakeLog_obj: "those (map (z_IntakeLog \<circ> IntakeLog_obj) ls) = Some ls"
  unfolding comp_def by (rule those_map_Some) (simp add: z_IntakeLog_obj)

lemma input_schema_obj:
  assumes "z_message (JStr (userMessage i)) = Some (userMessage i)"
  shows "input_schema z_message (GlobalAssistantInput_obj i) = Some i"
proof -
  show ?thesis
    using assms
    by (cases "todayLogs i"; cases "adherenceStats i")
       (simp_all add: input_schema_def GlobalAssistantInput_obj_def z_PageContext_str
          those_Medication_obj those_IntakeLog_obj z_AdherenceStats_obj
          del: z_PageContext.simps)
qed

lemma action_input_obj:
  "userMessage i \<noteq> [] \<Longrightarrow> GlobalAssistantActionInput (GlobalAssistantInput_obj i) = Some i"
  unfolding GlobalAssistantActionInput_def
  by (rule input_schema_obj) (cases "userMessage i"; simp)

lemma flow_input_obj: "GlobalAssistantInputSchema (GlobalAssistantInput_obj i) = Some i"
  unfolding GlobalAssistantInputSchema_def
  by (rule input_schema_obj) simp

section \<open>Validation and repair of the provider's text\<close>

lemma those_map_z_string:
  "those (map z_string xs) = (if list_all is_string xs then Some (filter_strings xs) else None)"
proof (induction xs)
  case Nil
  show ?case by simp
next
  case (Cons x xs)
  show ?case using Cons.IH by (cases x) simp_all
qed

lemma schema_some_iff:
  "GlobalAssistantOutputSchema j =
     (if spec_matches_shape j
      then Some \<lparr>response = spec_response raw j, suggestions = spec_suggestions j\<rparr>
      else None)"
proof (cases j)
  case (JObj kvs)
  show ?thesis
  proof (cases "map_of kvs ''response''")
    case None
    with JObj show ?thesis by (simp add: spec_matches_shape_def)
  next
    case (Some r)
    note r = this
    show ?thesis
    proof (cases r)
      case (JStr s)
      show ?thesis
      proof (cases "map_of kvs ''suggestions''")
        case None
        with JObj r JStr show ?thesis
          by (simp add: spec_matches_shape_def spec_response_def spec_suggestions_def)
      next
        case (Some g)
        with JObj r JStr show ?thesis
          by (cases g)
             (simp_all add: spec_matches_shape_def spec_response_def spec_suggestions_def
                those_map_z_string)
      qed
    qed (use JObj r in \<open>simp_all add: spec_matches_shape_def\<close>)
  qed
qed (simp_all add: spec_matches_shape_def)

lemma salvage_null: "salvage body JNull = Inl TypeError"
  by (simp add: salvage_def bind_err_def)

lemma salvage_not_null:
  "j \<noteq> JNull \<Longrightarrow>
   salvage body j = Inr \<lparr>response = spec_response body j, suggestions = spec_suggestions j\<rparr>"
  by (cases j)
     (auto simp: salvage_def bind_err_def spec_response_def spec_suggestions_def
        split: option.splits jsval.splits)

lemma spec_fields_null:
  "spec_response body JNull = body" "spec_suggestions JNull = None"
  by (simp_all add: spec_response_def spec_suggestions_def)

lemma filter_strings_all:
  "list_all is_string xs \<Longrightarrow> map JStr (filter_strings xs) = xs"
proof (induction xs)
  case Nil
  show ?case by simp
next
  case (Cons x xs)
  then show ?case by (cases x) simp_all
qed

lemma spec_matches_shapeD:
  "spec_matches_shape j \<Longrightarrow>
   \<exists>kvs r. j = JObj kvs \<and> map_of kvs ''response'' = Some (JStr r)
     \<and> (map_of kvs ''suggestions'' = None
        \<or> (\<exists>xs. map_of kvs ''suggestions'' = Some (JArr xs) \<and> list_all is_string xs))"
  unfolding spec_matches_shape_def
  apply (cases j; simp)
  subgoal for kvs
    apply (cases "map_of kvs ''response''"; simp)
    subgoal for r
      apply (cases r; simp)
      apply (cases "map_of kvs ''suggestions''"; simp)
      subgoal for s g
        by (cases g; simp)
      done
    done
  done

lemma shape_fields_unchanged:
  assumes "spec_matches_shape j"
  shows "spec_field (GlobalAssistantOutput_obj
           \<lparr>response = spec_response raw j, suggestions = spec_suggestions j\<rparr>) ''response''
         = spec_field j ''response''"
    and "spec_field (GlobalAssistantOutput_obj
           \<lparr>response = spec_response raw j, suggestions = spec_suggestions j\<rparr>) ''suggestions''
         = spec_field j ''suggestions''"
proof -
  from spec_matches_shapeD [OF assms] obtain kvs r where
    j: "j = JObj kvs" and r: "map_of kvs ''response'' = Some (JStr r)" and
    s: "map_of kvs ''suggestions'' = None
        \<or> (\<exists>xs. map_of kvs ''suggestions'' = Some (JArr xs) \<and> list_all is_string xs)"
    by blast
  show "spec_field (GlobalAssistantOutput_obj
           \<lparr>response = spec_response raw j, suggestions = spec_suggestions j\<rparr>) ''response''
         = spec_field j ''response''"
    using j r by (simp add: GlobalAssistantOutput_obj_def spec_response_def)
  show "spec_field (GlobalAssistantOutput_obj
           \<lparr>response = spec_response raw j, suggestions = spec_suggestions j\<rparr>) ''suggestions''
         = spec_field j ''suggestions''"
    using j s
    by (auto simp: GlobalAssistantOutput_obj_def spec_suggestions_def filter_strings_all)
qed

lemma validate_content_repair:
  "validate_content parse body = Inr (spec_repair parse body)"
proof (cases "parse body")
  case None
  then show ?thesis
    by (simp add: validate_content_def try_parse_def spec_repair_def)
next
  case (Some j)
  show ?thesis
  proof (cases "spec_matches_shape j")
    case True
    with Some show ?thesis
      by (simp add: validate_content_def try_parse_def spec_repair_def
            schema_some_iff [where raw = body])
  next
    case False
    show ?thesis
    proof (cases "j = JNull")
      case True
      with Some False show ?thesis
        by (simp add: validate_content_def try_parse_def spec_repair_def
              schema_some_iff [where raw = body] salvage_null spec_fields_null)
    next
      case nn: False
      with Some False show ?thesis
        by (simp add: validate_content_def try_parse_def spec_repair_def
              schema_some_iff [where raw = body] salvage_not_null)
    qed
  qed
qed

text \<open>
  C1. For every raw text the validator returns an output and does not throw. When the
  text parses to a value of the shape
  \<^verbatim>\<open>{response: string, suggestions?: array of strings}\<close> the output holds that
  value's two fields unchanged; when it parses to a value that fails the shape, the
  response is the \<^verbatim>\<open>response\<close> field if a string, else the \<^verbatim>\<open>answer\<close> field if a
  string, else the raw text, and the suggestions are the string entries of the
  \<^verbatim>\<open>suggestions\<close> field, in order, when that field is an array, else absent; when
  parsing throws, the output is the raw text with no suggestions.
\<close>

theorem validate_content_tiers:
  "validate_content parse body = Inr (spec_repair parse body)
   \<and> (\<forall>j. parse body = Some j \<and> spec_matches_shape j \<longrightarrow>
          spec_field (GlobalAssistantOutput_obj (spec_repair parse body)) ''response''
            = spec_field j ''response''
        \<and> spec_field (GlobalAssistantOutput_obj (spec_repair parse body)) ''suggestions''
            = spec_field j ''suggestions'')"
proof (intro conjI allI impI)
  show "validate_content parse body = Inr (spec_repair parse body)"
    by (rule validate_content_repair)
next
  fix j
  assume a: "parse body = Some j \<and> spec_matches_shape j"
  then have r: "spec_repair parse body
      = \<lparr>response = spec_response body j, suggestions = spec_suggestions j\<rparr>"
    by (simp add: spec_repair_def)
  from a show "spec_field (GlobalAssistantOutput_obj (spec_repair parse body)) ''response''
      = spec_field j ''response''"
    unfolding r by (simp add: shape_fields_unchanged(1))
  from a show "spec_field (GlobalAssistantOutput_obj (spec_repair parse body)) ''suggestions''
      = spec_field j ''suggestions''"
    unfolding r by (simp add: shape_fields_unchanged(2))
qed

theorem validate_content_tiers_witness:
  "validate_content example_parse ''{\"response\":\"ok\",\"suggestions\":[\"a\", 5, \"b\"]}''
     = Inr \<lparr>response = ''ok'', suggestions = Some [''a'', ''b'']\<rparr>
   \<and> validate_content example_parse ''{\"answer\":\"Take with food\"}''
     = Inr \<lparr>response = ''Take with food'', suggestions = None\<rparr>
   \<and> validate_content example_parse ''null''
     = Inr \<lparr>response = ''null'', suggestions = None\<rparr>
   \<and> validate_content example_parse ''not json at all''
     = Inr \<lparr>response = ''not json at all'', suggestions = None\<rparr>"
proof -
  have a: "validate_content example_parse ''{\"response\":\"ok\",\"suggestions\":[\"a\", 5, \"b\"]}''
     = Inr \<lparr>response = ''ok'', suggestions = Some [''a'', ''b'']\<rparr>"
    using validate_content_tiers
      [of example_parse "''{\"response\":\"ok\",\"suggestions\":[\"a\", 5, \"b\"]}''", THEN conjunct1]
    by (simp add: spec_repair_def spec_response_def spec_suggestions_def example_parse_def)
  have b: "validate_content example_parse ''{\"answer\":\"Take with food\"}''
     = Inr \<lparr>response = ''Take with food'', suggestions = None\<rparr>"
    using validate_content_tiers
      [of example_parse "''{\"answer\":\"Take with food\"}''", THEN conjunct1]
    by (simp add: spec_repair_def spec_response_def spec_suggestions_def example_parse_def)
  have c: "validate_content example_parse ''null''
     = Inr \<lparr>response = ''null'', suggestions = None\<rparr>"
    using validate_content_tiers [of example_parse "''null''", THEN conjunct1]
    by (simp add: spec_repair_def spec_response_def spec_suggestions_def example_parse_def)
  have d: "validate_content example_parse ''not json at all''
     = Inr \<lparr>response = ''not json at all'', suggestions = None\<rparr>"
    using validate_content_tiers [of example_parse "''not json at all''", THEN conjunct1]
    by (simp add: spec_repair_def example_parse_def)
  from a b c d show ?thesis by blast
qed

section \<open>The conversation controller\<close>


lemma handleSend_pending: "isPending st \<Longrightarrow> handleSend rd m st = st"
  by (simp add: handleSend_def)

lemma handleSend_empty: "message_text m (input st) = [] \<Longrightarrow> handleSend rd m st = st"
  by (simp add: handleSend_def)

lemma handleSend_dispatch:
  "\<not> isPending st \<Longrightarrow> message_text m (input st) \<noteq> [] \<Longrightarrow>
   handleSend rd m st =
     st\<lparr>messages := messages st @ [\<lparr>role = User, content = message_text m (input st), msg_suggestions = None\<rparr>],
        input := [], isPending := True,
        inflight := inflight st @ [request rd (message_text m (input st))]\<rparr>"
  by (simp add: handleSend_def Let_def)

lemma single_flight_step: "single_flight st \<Longrightarrow> single_flight (step st ev)"
proof (cases ev)
  case (Typed s)
  assume "single_flight st"
  with Typed show ?thesis by (simp add: single_flight_def setInput_def)
next
  case (Submitted rd)
  assume "single_flight st"
  with Submitted show ?thesis
    by (auto simp: single_flight_def handleSend_def Let_def)
next
  case (SuggestionClicked rd s)
  assume "single_flight st"
  with SuggestionClicked show ?thesis
    by (auto simp: single_flight_def handleSuggestionClick_def handleSend_def Let_def)
next
  case (Settled res)
  assume "single_flight st"
  with Settled show ?thesis
    by (cases "inflight st") (auto simp: single_flight_def settle_def)
next
  case PathChanged
  assume "single_flight st"
  with PathChanged show ?thesis by (simp add: single_flight_def resetOnPathChange_def)
qed

lemma single_flight_foldl: "single_flight st \<Longrightarrow> single_flight (foldl step st evs)"
  by (induction evs arbitrary: st) (simp_all add: single_flight_step)

lemma single_flight_run: "single_flight (run evs)"
  unfolding run_def by (rule single_flight_foldl) (simp add: single_flight_def initial_state_def)



lemma served_provider_throws:
  assumes "create_completion rt (systemPrompts (pageContext req)) (buildUserPrompt rt req) = Inl e"
    and "userMessage req \<noteq> []"
  shows "served rt req = Inr (Failed ''Failed to get response. Please try again.'')"
  using assms
  by (simp add: served_def getGlobalAssistantResponse_def action_input_obj askGlobalAssistant_def
        flow_input_obj Let_def split: option.splits)

lemma served_provider_answers:
  assumes "OPENAI_API_KEY rt = Some k" "k \<noteq> []"
    and "create_completion rt (systemPrompts (pageContext req)) (buildUserPrompt rt req) = Inr (Some c)"
    and "c \<noteq> []" and "userMessage req \<noteq> []"
  shows "served rt req = Inr (Answered (spec_repair (JSON_parse rt) c))"
  using assms
  by (simp add: served_def getGlobalAssistantResponse_def action_input_obj askGlobalAssistant_def
        flow_input_obj Let_def validate_content_repair)

lemma request_fields:
  "pageContext (request rd t) = r_pageContext rd" "userMessage (request rd t) = t"
  by (simp_all add: request_def)

text \<open>
  C2. A submit that is dispatched (the message text is not empty and no request is in
  flight) appends the user turn and raises the in-flight flag; when its request settles,
  exactly one turn is appended, it has the assistant role, and the flag is down, whatever
  the outcome. On an output the turn carries its response and suggestions; on
  \<^verbatim>\<open>{error}\<close> its content is \<^verbatim>\<open>Sorry, I encountered an error. Please try again.\<close>;
  on a thrown error it is \<^verbatim>\<open>Sorry, something went wrong. Please try again.\<close> A
  provider call that throws makes the server action return \<^verbatim>\<open>{error}\<close>, and one that
  answers makes it return the validated output.
\<close>

theorem submit_settles:
  assumes "\<not> isPending st" and "message_text m (input st) \<noteq> []"
  shows "messages (settle res (handleSend rd m st))
           = messages st @ [\<lparr>role = User, content = message_text m (input st), msg_suggestions = None\<rparr>,
                            reply res]
     \<and> isPending (handleSend rd m st)
     \<and> \<not> isPending (settle res (handleSend rd m st))
     \<and> role (reply res) = Assistant
     \<and> (\<forall>out. res = Inr (Answered out) \<longrightarrow>
           content (reply res) = response out \<and> msg_suggestions (reply res) = suggestions out)
     \<and> (\<forall>e. res = Inr (Failed e) \<longrightarrow>
           content (reply res) = ''Sorry, I encountered an error. Please try again.'')
     \<and> (\<forall>e. res = Inl e \<longrightarrow>
           content (reply res) = ''Sorry, something went wrong. Please try again.'')
     \<and> (\<forall>rt e. create_completion rt (systemPrompts (r_pageContext rd))
                   (buildUserPrompt rt (request rd (message_text m (input st)))) = Inl e \<longrightarrow>
           served rt (request rd (message_text m (input st)))
             = Inr (Failed ''Failed to get response. Please try again.''))
     \<and> (\<forall>rt k c. OPENAI_API_KEY rt = Some k \<and> k \<noteq> [] \<and> c \<noteq> [] \<and>
                 create_completion rt (systemPrompts (r_pageContext rd))
                   (buildUserPrompt rt (request rd (message_text m (input st)))) = Inr (Some c) \<longrightarrow>
           served rt (request rd (message_text m (input st)))
             = Inr (Answered (spec_repair (JSON_parse rt) c)))"
proof (intro conjI allI impI)
  note d = handleSend_dispatch [OF assms, of rd]
  show "messages (settle res (handleSend rd m st))
           = messages st @ [\<lparr>role = User, content = message_text m (input st), msg_suggestions = None\<rparr>,
                            reply res]"
    by (simp add: d settle_def)
  show "isPending (handleSend rd m st)" by (simp add: d)
  show "\<not> isPending (settle res (handleSend rd m st))" by (simp add: settle_def)
  show "role (reply res) = Assistant" by (cases res rule: reply.cases) simp_all
next
  fix out assume "res = Inr (Answered out)"
  then show "content (reply res) = response out" "msg_suggestions (reply res) = suggestions out"
    by simp_all
next
  fix e assume "res = Inr (Failed e)"
  then show "content (reply res) = ''Sorry, I encountered an error. Please try again.''" by simp
next
  fix e assume "res = Inl e"
  then show "content (reply res) = ''Sorry, something went wrong. Please try again.''" by simp
next
  fix rt e
  assume "create_completion rt (systemPrompts (r_pageContext rd))
            (buildUserPrompt rt (request rd (message_text m (input st)))) = Inl e"
  then show "served rt (request rd (message_text m (input st)))
             = Inr (Failed ''Failed to get response. Please try again.'')"
    using assms(2) by (intro served_provider_throws [where e = e]) (simp_all add: request_fields)
next
  fix rt k c
  assume "OPENAI_API_KEY rt = Some k \<and> k \<noteq> [] \<and> c \<noteq> [] \<and>
          create_completion rt (systemPrompts (r_pageContext rd))
            (buildUserPrompt rt (request rd (message_text m (input st)))) = Inr (Some c)"
  then show "served rt (request rd (message_text m (input st)))
             = Inr (Answered (spec_repair (JSON_parse rt) c))"
    using assms(2) by (intro served_provider_answers [where k = k]) (simp_all add: request_fields)
qed

theorem submit_settles_witness:
  "messages (settle (Inr (Answered \<lparr>response = ''ok'', suggestions = Some [''a'']\<rparr>))
       (handleSend empty_render (Some ''hi'') initial_state))
     = [\<lparr>role = User, content = ''hi'', msg_suggestions = None\<rparr>,
        \<lparr>role = Assistant, content = ''ok'', msg_suggestions = Some [''a'']\<rparr>]
   \<and> \<not> isPending (settle (Inr (Answered \<lparr>response = ''ok'', suggestions = Some [''a'']\<rparr>))
       (handleSend empty_render (Some ''hi'') initial_state))
   \<and> messages (settle (served failing_provider (request empty_render ''hi''))
       (handleSend empty_render (Some ''hi'') initial_state))
     = [\<lparr>role = User, content = ''hi'', msg_suggestions = None\<rparr>,
        \<lparr>role = Assistant, content = ''Sorry, I encountered an error. Please try again.'',
         msg_suggestions = None\<rparr>]"
proof -
  have p: "\<not> isPending initial_state" by (simp add: initial_state_def)
  have t: "message_text (Some ''hi'') (input initial_state) = ''hi''"
    by (simp add: message_text_def)
  have n: "message_text (Some ''hi'') (input initial_state) \<noteq> []" by (simp add: t)
  note th = submit_settles [OF p n, of _ empty_render]
  have f: "served failing_provider (request empty_render ''hi'')
             = Inr (Failed ''Failed to get response. Please try again.'')"
    using th [of "Inl TypeError"] unfolding t
    by (simp add: failing_provider_def)
  have a: "messages (settle (Inr (Answered \<lparr>response = ''ok'', suggestions = Some [''a'']\<rparr>))
       (handleSend empty_render (Some ''hi'') initial_state))
     = [\<lparr>role = User, content = ''hi'', msg_suggestions = None\<rparr>,
        \<lparr>role = Assistant, content = ''ok'', msg_suggestions = Some [''a'']\<rparr>]"
    using th [of "Inr (Answered \<lparr>response = ''ok'', suggestions = Some [''a'']\<rparr>)", THEN conjunct1]
    unfolding t by (simp add: initial_state_def)
  have b: "\<not> isPending (settle (Inr (Answered \<lparr>response = ''ok'', suggestions = Some [''a'']\<rparr>))
       (handleSend empty_render (Some ''hi'') initial_state))"
    using th [of "Inr (Answered \<lparr>response = ''ok'', suggestions = Some [''a'']\<rparr>)"]
    by blast
  have c: "messages (settle (served failing_provider (request empty_render ''hi''))
       (handleSend empty_render (Some ''hi'') initial_state))
     = [\<lparr>role = User, content = ''hi'', msg_suggestions = None\<rparr>,
        \<lparr>role = Assistant, content = ''Sorry, I encountered an error. Please try again.'',
         msg_suggestions = None\<rparr>]"
    using th [of "served failing_provider (request empty_render ''hi'')", THEN conjunct1]
    unfolding t f by (simp add: initial_state_def)
  from a b c show ?thesis by blast
qed

text \<open>
  C3. After every history of events that leaves a request outstanding, a further submit,
  typed or through a suggestion, changes nothing: the transcript, the draft, the flag
  and the outstanding requests are as before, so no second request is sent. At most one
  request is outstanding after every history.
\<close>

theorem second_submit_no_effect:
  "(inflight (run evs) \<noteq> [] \<longrightarrow>
      handleSend rd m (run evs) = run evs \<and> handleSuggestionClick rd s (run evs) = run evs)
   \<and> length (inflight (run evs)) \<le> 1"
  using single_flight_run [of evs]
  by (simp add: handleSend_pending handleSuggestionClick_def single_flight_def)

lemma run_one_submit:
  "run [Typed ''hi'', Submitted empty_render]
     = \<lparr>messages = [\<lparr>role = User, content = ''hi'', msg_suggestions = None\<rparr>], input = [],
        isPending = True, inflight = [request empty_render ''hi'']\<rparr>"
  by (simp add: run_def initial_state_def setInput_def handleSend_def message_text_def trim_def
        isWhiteSpace_def Let_def)

theorem second_submit_no_effect_witness:
  "inflight (run [Typed ''hi'', Submitted empty_render]) \<noteq> []
   \<and> handleSend empty_render (Some ''again'') (run [Typed ''hi'', Submitted empty_render])
       = run [Typed ''hi'', Submitted empty_render]
   \<and> handleSuggestionClick empty_render ''again'' (run [Typed ''hi'', Submitted empty_render])
       = run [Typed ''hi'', Submitted empty_render]
   \<and> length (inflight (run [Typed ''hi'', Submitted empty_render])) \<le> 1"
proof -
  have n: "inflight (run [Typed ''hi'', Submitted empty_render]) \<noteq> []"
    by (simp add: run_one_submit)
  from second_submit_no_effect
         [of "[Typed ''hi'', Submitted empty_render]" empty_render "Some ''again''" "''again''"] n
  show ?thesis by blast
qed

subsection \<open>Empty and whitespace-only messages\<close>

text \<open>The typed path: a draft of white space only is trimmed to nothing and not sent.\<close>

lemma trim_all_white: "list_all isWhiteSpace s \<Longrightarrow> trim s = []"
  by (auto simp: trim_def list_all_iff dest: set_dropWhileD)

lemma typed_whitespace_noop:
  "list_all isWhiteSpace (input st) \<Longrightarrow> handleSend rd None st = st"
  by (simp add: handleSend_def message_text_def trim_all_white)

text \<open>
  C6. The claim is that a submit of an empty or whitespace-only text, typed or taken from
  a suggestion, appends no user turn and sends no request. On the suggestion path the
  code does otherwise: a suggestion of three spaces is appended as a user turn and its
  request is sent, and the server action does not reject it; a suggestion that is the
  empty string sends the draft instead.
\<close>

theorem whitespace_suggestion_is_sent:
  "handleSuggestionClick rd ''   '' initial_state
     = \<lparr>messages = [\<lparr>role = User, content = ''   '', msg_suggestions = None\<rparr>], input = [],
        isPending = True, inflight = [request rd ''   '']\<rparr>
   \<and> list_all isWhiteSpace ''   ''
   \<and> served rt (request rd ''   '') \<noteq> Inl (Error ''Invalid input.'')
   \<and> messages (handleSuggestionClick rd [] (setInput ''hello'' initial_state))
     = [\<lparr>role = User, content = ''hello'', msg_suggestions = None\<rparr>]"
proof (intro conjI)
  show "handleSuggestionClick rd ''   '' initial_state
     = \<lparr>messages = [\<lparr>role = User, content = ''   '', msg_suggestions = None\<rparr>], input = [],
        isPending = True, inflight = [request rd ''   '']\<rparr>"
    by (simp add: handleSuggestionClick_def handleSend_def message_text_def initial_state_def Let_def)
  show "list_all isWhiteSpace ''   ''" by (simp add: isWhiteSpace_def)
  have "GlobalAssistantActionInput (GlobalAssistantInput_obj (request rd ''   ''))
          = Some (request rd ''   '')"
    by (rule action_input_obj) (simp add: request_fields)
  then show "served rt (request rd ''   '') \<noteq> Inl (Error ''Invalid input.'')"
    by (simp add: served_def getGlobalAssistantResponse_def split: prod.splits sum.splits)
  show "messages (handleSuggestionClick rd [] (setInput ''hello'' initial_state))
     = [\<lparr>role = User, content = ''hello'', msg_suggestions = None\<rparr>]"
    by (simp add: handleSuggestionClick_def handleSend_def message_text_def initial_state_def
          setInput_def trim_def isWhiteSpace_def Let_def)
qed

subsection \<open>A change of route while a request is outstanding\<close>

text \<open>
  C4 as stated fails: a suggestion is sent, the route changes, and the response that
  arrives afterwards is the one turn of the new transcript.
\<close>

theorem late_response_counterexample:
  "messages (run [SuggestionClicked empty_render ''hi'', PathChanged,
                  Settled (Inr (Answered \<lparr>response = ''late'', suggestions = None\<rparr>))])
     = [\<lparr>role = Assistant, content = ''late'', msg_suggestions = None\<rparr>]"
  by (simp add: run_def initial_state_def handleSuggestionClick_def handleSend_def
        message_text_def resetOnPathChange_def settle_def Let_def)

text \<open>
  C4, amended. When the route changes while a request is outstanding, the transcript and
  the draft are cleared; when the request then settles, its assistant turn is appended
  to the new transcript, which so consists of that turn alone, and the in-flight flag
  goes down.
\<close>

theorem late_response_appended:
  "inflight st \<noteq> [] \<Longrightarrow>
   step (step st PathChanged) (Settled res)
     = \<lparr>messages = [reply res], input = [], isPending = False, inflight = tl (inflight st)\<rparr>"
  by (simp add: resetOnPathChange_def settle_def)

theorem late_response_appended_witness:
  "inflight (run [Typed ''hi'', Submitted empty_render]) \<noteq> []
   \<and> step (step (run [Typed ''hi'', Submitted empty_render]) PathChanged) (Settled (Inl TypeError))
     = \<lparr>messages = [\<lparr>role = Assistant, content = ''Sorry, something went wrong. Please try again.'',
                      msg_suggestions = None\<rparr>],
        input = [], isPending = False, inflight = []\<rparr>"
proof -
  have n: "inflight (run [Typed ''hi'', Submitted empty_render]) \<noteq> []"
    by (simp add: run_one_submit)
  from late_response_appended [OF n, of "Inl TypeError"] n show ?thesis
    by (simp add: run_one_submit)
qed

subsection \<open>Selecting a suggestion and typing it\<close>


text \<open>
  A no-break space at an end of a text is white space: \<^verbatim>\<open>trim\<close> strips it, so such
  a text is not its own trim.
\<close>

lemma trim_strips_nbsp:
  "trim (CHR 0xA0 # ''hi'' @ [CHR 0xA0]) = ''hi''"
  "trim (CHR 0xA0 # ''hi'') \<noteq> CHR 0xA0 # ''hi''"
  by (simp_all add: trim_def isWhiteSpace_def)



section \<open>Adherence statistics\<close>

text \<open>
  Six of eight gives 0.75 and 75 exactly. Twenty-three of forty gives the double below
  57.5, which \<^verbatim>\<open>Math.round\<close> takes to 57.
\<close>

lemma rate_6_of_8: "Math_round (js_mul (js_div 6 8) 100) = 75"
  by code_simp

lemma rate_23_of_40: "Math_round (js_mul (js_div 23 40) 100) = 57"
  by code_simp

text \<open>
  On a host whose offset is the same at both ends the bound is thirty days of 24 hours
  before now. On the host in New York, read two days after the clocks went back, it is
  an hour earlier than that, and the dose taken thirty days and half an hour before the
  read is kept.
\<close>

lemma thirtyDaysAgo_constant_offset:
  assumes "\<forall>t. LocalTZA_of_utc rd t = z \<and> LocalTZA_of_local rd t = z"
  shows "thirtyDaysAgo rd = TimeClip (r_now rd - 30 * 86400000)"
  using assms by (simp add: thirtyDaysAgo_def UTC_def LocalTime_def)

lemma thirtyDaysAgo_new_york:
  "thirtyDaysAgo new_york_render = Some (1793707200000 - 30 * 86400000 - 3600000)"
  by (simp add: thirtyDaysAgo_def UTC_def LocalTime_def TimeClip_def new_york_render_def)

lemma recentLogs_new_york: "recentLogs new_york_render = r_logs new_york_render"
  unfolding recentLogs_def thirtyDaysAgo_new_york
  by (simp add: new_york_render_def)

lemma future_log_recent:
  "recentLogs future_log_render = r_logs future_log_render"
  by (simp add: recentLogs_def future_log_render_def thirtyDaysAgo_def UTC_def LocalTime_def
        TimeClip_def)

text \<open>
  C8 as stated fails: the code keeps every entry from thirty days back on, with no upper
  end, so a dose logged with a time in 2099 is counted, while the window ending today
  holds no entry.
\<close>

theorem adherence_window_counterexample:
  "totalTaken (calculateAdherenceStats future_log_render) = 1
   \<and> spec_totalTaken future_log_render = 0"
  by (simp add: calculateAdherenceStats_def Let_def future_log_recent spec_totalTaken_def
        spec_window_def)
     (simp add: future_log_render_def)

lemma recentLogs_bound:
  "recentLogs rd
     = filter (\<lambda>log. \<exists>t. Date_parse rd (time log) = Some t
                 \<and> \<bar>UTC rd (LocalTime rd (r_now rd) - 30 * 86400000)\<bar> \<le> 8640000000000000
                 \<and> UTC rd (LocalTime rd (r_now rd) - 30 * 86400000) \<le> t)
         (r_logs rd)"
  unfolding recentLogs_def thirtyDaysAgo_def TimeClip_def
  by (rule filter_cong) (auto split: option.splits)

text \<open>
  C8, amended. The entries kept are those whose time parses and is not earlier than the
  bound that \<^verbatim>\<open>setDate(getDate() - 30)\<close> gives: the instant at which the local clock
  showed the time of day it shows now, thirty calendar days ago (the local time of now,
  less thirty days of 86400000 ms, taken back to UTC with the host's offset at that
  local time; no entry is kept when that instant is outside the range of dates). On a
  host whose offset does not change this is thirty days of 24 hours before now. There
  is no upper end. \<^verbatim>\<open>totalTaken\<close> counts the kept entries with status taken;
  \<^verbatim>\<open>totalScheduled\<close> counts the kept entries, floored at 1; \<^verbatim>\<open>adherenceRate\<close> is
  \<^verbatim>\<open>Math.round\<close> of the double-precision value of
  \<^verbatim>\<open>(totalTaken / totalScheduled) * 100\<close>; with eight kept entries of which six are
  taken it is 75.
\<close>

theorem adherence_stats:
  "recentLogs rd
     = filter (\<lambda>log. \<exists>t. Date_parse rd (time log) = Some t
                 \<and> \<bar>r_now rd + LocalTZA_of_utc rd (r_now rd) - 30 * 86400000
                     - LocalTZA_of_local rd (r_now rd + LocalTZA_of_utc rd (r_now rd) - 30 * 86400000)\<bar>
                     \<le> 8640000000000000
                 \<and> r_now rd + LocalTZA_of_utc rd (r_now rd) - 30 * 86400000
                     - LocalTZA_of_local rd (r_now rd + LocalTZA_of_utc rd (r_now rd) - 30 * 86400000)
                     \<le> t)
         (r_logs rd)
   \<and> ((\<forall>t. LocalTZA_of_utc rd t = z \<and> LocalTZA_of_local rd t = z)
        \<and> \<bar>r_now rd - 30 * 86400000\<bar> \<le> 8640000000000000
      \<longrightarrow> recentLogs rd
            = filter (\<lambda>log. \<exists>t. Date_parse rd (time log) = Some t \<and> r_now rd - 30 * 86400000 \<le> t)
                (r_logs rd))
   \<and> totalTaken (calculateAdherenceStats rd)
       = of_nat (length (filter (\<lambda>log. status log = Taken) (recentLogs rd)))
   \<and> totalScheduled (calculateAdherenceStats rd) = of_nat (max 1 (length (recentLogs rd)))
   \<and> adherenceRate (calculateAdherenceStats rd)
       = of_int (Math_round (js_mul (js_div (totalTaken (calculateAdherenceStats rd))
                                            (totalScheduled (calculateAdherenceStats rd))) 100))
   \<and> (length (recentLogs rd) = 8
        \<and> length (filter (\<lambda>log. status log = Taken) (recentLogs rd)) = 6
      \<longrightarrow> adherenceRate (calculateAdherenceStats rd) = 75)"
proof (intro conjI impI)
  show "recentLogs rd
     = filter (\<lambda>log. \<exists>t. Date_parse rd (time log) = Some t
                 \<and> \<bar>r_now rd + LocalTZA_of_utc rd (r_now rd) - 30 * 86400000
                     - LocalTZA_of_local rd (r_now rd + LocalTZA_of_utc rd (r_now rd) - 30 * 86400000)\<bar>
                     \<le> 8640000000000000
                 \<and> r_now rd + LocalTZA_of_utc rd (r_now rd) - 30 * 86400000
                     - LocalTZA_of_local rd (r_now rd + LocalTZA_of_utc rd (r_now rd) - 30 * 86400000)
                     \<le> t)
         (r_logs rd)"
    using recentLogs_bound [of rd] by (simp only: UTC_def LocalTime_def)
next
  assume c: "(\<forall>t. LocalTZA_of_utc rd t = z \<and> LocalTZA_of_local rd t = z)
        \<and> \<bar>r_now rd - 30 * 86400000\<bar> \<le> 8640000000000000"
  then have "thirtyDaysAgo rd = Some (r_now rd - 30 * 86400000)"
    using thirtyDaysAgo_constant_offset [of rd z] by (simp add: TimeClip_def)
  then show "recentLogs rd
            = filter (\<lambda>log. \<exists>t. Date_parse rd (time log) = Some t \<and> r_now rd - 30 * 86400000 \<le> t)
                (r_logs rd)"
    unfolding recentLogs_def by (intro filter_cong) (auto split: option.splits)
next
  show "totalTaken (calculateAdherenceStats rd)
       = of_nat (length (filter (\<lambda>log. status log = Taken) (recentLogs rd)))"
    by (simp add: calculateAdherenceStats_def Let_def)
  show "totalScheduled (calculateAdherenceStats rd) = of_nat (max 1 (length (recentLogs rd)))"
    by (cases "recentLogs rd") (simp_all add: calculateAdherenceStats_def Let_def max_def)
  show "adherenceRate (calculateAdherenceStats rd)
       = of_int (Math_round (js_mul (js_div (totalTaken (calculateAdherenceStats rd))
                                            (totalScheduled (calculateAdherenceStats rd))) 100))"
    by (simp add: calculateAdherenceStats_def Let_def)
next
  assume a: "length (recentLogs rd) = 8
        \<and> length (filter (\<lambda>log. status log = Taken) (recentLogs rd)) = 6"
  then show "adherenceRate (calculateAdherenceStats rd) = 75"
    by (simp add: calculateAdherenceStats_def Let_def rate_6_of_8)
qed

lemma eight_logs_offsets:
  "\<forall>t. LocalTZA_of_utc eight_logs_render t = 0 \<and> LocalTZA_of_local eight_logs_render t = 0"
  by (simp add: eight_logs_render_def)

lemma eight_logs_in_range: "\<bar>r_now eight_logs_render - 30 * 86400000\<bar> \<le> 8640000000000000"
  by (simp add: eight_logs_render_def)

lemma eight_logs_recent:
  "length (recentLogs eight_logs_render) = 8"
  "length (filter (\<lambda>log. status log = Taken) (recentLogs eight_logs_render)) = 6"
  by (simp_all add: recentLogs_def eight_logs_render_def thirtyDaysAgo_def UTC_def LocalTime_def
        TimeClip_def)

theorem adherence_stats_witness:
  "(\<forall>t. LocalTZA_of_utc eight_logs_render t = 0 \<and> LocalTZA_of_local eight_logs_render t = 0)
   \<and> \<bar>r_now eight_logs_render - 30 * 86400000\<bar> \<le> 8640000000000000
   \<and> recentLogs eight_logs_render
       = filter (\<lambda>log. \<exists>t. Date_parse eight_logs_render (time log) = Some t
                   \<and> r_now eight_logs_render - 30 * 86400000 \<le> t)
           (r_logs eight_logs_render)
   \<and> length (recentLogs eight_logs_render) = 8
   \<and> length (filter (\<lambda>log. status log = Taken) (recentLogs eight_logs_render)) = 6
   \<and> adherenceRate (calculateAdherenceStats eight_logs_render) = 75
   \<and> totalScheduled (calculateAdherenceStats eight_logs_render) = 8
   \<and> totalTaken (calculateAdherenceStats eight_logs_render) = 6"
proof -
  note th = adherence_stats [of eight_logs_render 0]
  from th eight_logs_offsets eight_logs_in_range
  have w: "recentLogs eight_logs_render
       = filter (\<lambda>log. \<exists>t. Date_parse eight_logs_render (time log) = Some t
                   \<and> r_now eight_logs_render - 30 * 86400000 \<le> t)
           (r_logs eight_logs_render)"
    by blast
  from th eight_logs_recent
  have r: "adherenceRate (calculateAdherenceStats eight_logs_render) = 75" by blast
  from th have "totalScheduled (calculateAdherenceStats eight_logs_render)
      = of_nat (max 1 (length (recentLogs eight_logs_render)))" by blast
  then have s: "totalScheduled (calculateAdherenceStats eight_logs_render) = 8"
    by (simp add: eight_logs_recent)
  from th have "totalTaken (calculateAdherenceStats eight_logs_render)
      = of_nat (length (filter (\<lambda>log. status log = Taken) (recentLogs eight_logs_render)))"
    by blast
  then have t: "totalTaken (calculateAdherenceStats eight_logs_render) = 6"
    by (simp add: eight_logs_recent)
  from w r s t eight_logs_recent eight_logs_offsets eight_logs_in_range show ?thesis by blast
qed

section \<open>Routes, credential and input validation\<close>

lemma route_not_inherited:
  "pathname \<noteq> [] \<Longrightarrow> hd pathname = CHR ''/'' \<Longrightarrow> pathname \<notin> set Object_prototype_keys"
  by (auto simp: Object_prototype_keys_def)

lemma askGlobalAssistant_sent:
  "p \<in> set (snd (askGlobalAssistant rt i)) \<Longrightarrow> fst p = systemPrompts (pageContext i)"
  by (auto simp: askGlobalAssistant_def Let_def split: if_splits option.splits sum.splits)

text \<open>
  C10. For every route pathname (a path beginning with a slash) other than
  \<^verbatim>\<open>/dashboard\<close>, \<^verbatim>\<open>/medications\<close> and \<^verbatim>\<open>/reports\<close>, the page context is the
  dashboard: the label is \<^verbatim>\<open>Dashboard\<close>, the default suggestions are the dashboard's,
  and every provider request made for a render on that route carries the dashboard
  system prompt.
\<close>

theorem unknown_route_defaults_to_dashboard:
  assumes "pathname \<notin> {''/dashboard'', ''/medications'', ''/reports''}"
    and "pathname \<noteq> []" and "hd pathname = CHR ''/''"
  shows "pageContext_of pathname = Some Dashboard
     \<and> map_option (\<lambda>pc. label (pageInfo pc)) (pageContext_of pathname) = Some ''Dashboard''
     \<and> map_option defaultSuggestions (pageContext_of pathname)
         = Some [''What medications do I have today?'', ''How am I doing with my adherence?'']
     \<and> (\<forall>rd rt t p. pageContext_of pathname = Some (r_pageContext rd)
            \<and> p \<in> set (snd (askGlobalAssistant rt (request rd t)))
          \<longrightarrow> fst p = systemPrompts Dashboard)"
proof -
  have d: "pageContext_of pathname = Some Dashboard"
    using assms(1) route_not_inherited [OF assms(2,3)]
    by (simp add: pageContext_of_def pageContextMap_def)
  have "fst p = systemPrompts Dashboard"
    if "pageContext_of pathname = Some (r_pageContext rd)
        \<and> p \<in> set (snd (askGlobalAssistant rt (request rd t)))" for rd rt t p
  proof -
    from that d have "r_pageContext rd = Dashboard" by simp
    with that askGlobalAssistant_sent [of p rt "request rd t"] show ?thesis
      by (simp add: request_fields)
  qed
  with d show ?thesis by simp
qed

theorem unknown_route_defaults_to_dashboard_witness:
  "''/settings'' \<notin> {''/dashboard'', ''/medications'', ''/reports''}
   \<and> hd ''/settings'' = CHR ''/''
   \<and> pageContext_of ''/settings'' = Some Dashboard
   \<and> map_option (\<lambda>pc. label (pageInfo pc)) (pageContext_of ''/settings'') = Some ''Dashboard''"
proof -
  have a: "''/settings'' \<notin> {''/dashboard'', ''/medications'', ''/reports''}" by simp
  have b: "''/settings'' \<noteq> []" by simp
  have c: "hd ''/settings'' = CHR ''/''" by simp
  from unknown_route_defaults_to_dashboard [OF a b c] a c show ?thesis by blast
qed

lemma key_absent_throws:
  "OPENAI_API_KEY rt = None \<or> OPENAI_API_KEY rt = Some [] \<Longrightarrow>
   askGlobalAssistant rt i = (Inl (Error ''OPENAI_API_KEY is not set.''), [])"
  by (auto simp: askGlobalAssistant_def)

text \<open>
  C5 as stated fails: for the same request, the server without the credential and the
  server whose provider call throws hand the same result to the caller.
\<close>

theorem missing_key_counterexample:
  "served missing_key (request empty_render ''hi'')
     = served failing_provider (request empty_render ''hi'')"
proof -
  have v: "GlobalAssistantActionInput (GlobalAssistantInput_obj (request empty_render ''hi''))
             = Some (request empty_render ''hi'')"
    by (rule action_input_obj) (simp add: request_fields)
  have a: "served missing_key (request empty_render ''hi'')
             = Inr (Failed ''Failed to get response. Please try again.'')"
    by (simp add: served_def getGlobalAssistantResponse_def v key_absent_throws missing_key_def)
  have b: "served failing_provider (request empty_render ''hi'')
             = Inr (Failed ''Failed to get response. Please try again.'')"
    by (rule served_provider_throws [where e = "Error ''fetch failed''"])
       (simp_all add: failing_provider_def request_fields)
  from a b show ?thesis by simp
qed

text \<open>
  C5, amended. When the credential is absent or empty, the flow throws an error with the
  message \<^verbatim>\<open>OPENAI_API_KEY is not set.\<close> before any provider request, and the
  server action sends no request on any input; on a well-shaped input it catches that
  error and returns \<^verbatim>\<open>{error: 'Failed to get response. Please try again.'}\<close>, the
  result it also returns when the provider call throws.
\<close>

theorem missing_key_detected_first:
  assumes "OPENAI_API_KEY rt = None \<or> OPENAI_API_KEY rt = Some []"
  shows "askGlobalAssistant rt i = (Inl (Error ''OPENAI_API_KEY is not set.''), [])
     \<and> snd (getGlobalAssistantResponse rt j) = []
     \<and> (GlobalAssistantActionInput j \<noteq> None \<longrightarrow>
          fst (getGlobalAssistantResponse rt j)
            = Inr (Failed ''Failed to get response. Please try again.''))
     \<and> (\<forall>rt' e. userMessage i \<noteq> []
            \<and> create_completion rt' (systemPrompts (pageContext i)) (buildUserPrompt rt' i) = Inl e
          \<longrightarrow> served rt' i = served rt i)"
proof (intro conjI allI impI)
  show "askGlobalAssistant rt i = (Inl (Error ''OPENAI_API_KEY is not set.''), [])"
    by (rule key_absent_throws [OF assms])
  show "snd (getGlobalAssistantResponse rt j) = []"
    by (cases "GlobalAssistantActionInput j")
       (simp_all add: getGlobalAssistantResponse_def key_absent_throws [OF assms])
next
  assume "GlobalAssistantActionInput j \<noteq> None"
  then show "fst (getGlobalAssistantResponse rt j)
            = Inr (Failed ''Failed to get response. Please try again.'')"
    by (auto simp: getGlobalAssistantResponse_def key_absent_throws [OF assms])
next
  fix rt' e
  assume a: "userMessage i \<noteq> []
            \<and> create_completion rt' (systemPrompts (pageContext i)) (buildUserPrompt rt' i) = Inl e"
  then have "served rt' i = Inr (Failed ''Failed to get response. Please try again.'')"
    by (intro served_provider_throws [where e = e]) simp_all
  moreover from a have "served rt i = Inr (Failed ''Failed to get response. Please try again.'')"
    by (simp add: served_def getGlobalAssistantResponse_def action_input_obj
          key_absent_throws [OF assms])
  ultimately show "served rt' i = served rt i" by simp
qed

theorem missing_key_detected_first_witness:
  "(OPENAI_API_KEY missing_key = None \<or> OPENAI_API_KEY missing_key = Some [])
   \<and> askGlobalAssistant missing_key (request empty_render ''hi'')
       = (Inl (Error ''OPENAI_API_KEY is not set.''), [])
   \<and> getGlobalAssistantResponse missing_key (GlobalAssistantInput_obj (request empty_render ''hi''))
       = (Inr (Failed ''Failed to get response. Please try again.''), [])"
proof -
  have k: "OPENAI_API_KEY missing_key = None \<or> OPENAI_API_KEY missing_key = Some []"
    by (simp add: missing_key_def)
  have v: "GlobalAssistantActionInput (GlobalAssistantInput_obj (request empty_render ''hi''))
             \<noteq> None"
    by (simp add: action_input_obj request_fields)
  note th = missing_key_detected_first
    [OF k, of "request empty_render ''hi''"
       "GlobalAssistantInput_obj (request empty_render ''hi'')"]
  from th v have "getGlobalAssistantResponse missing_key
        (GlobalAssistantInput_obj (request empty_render ''hi''))
       = (Inr (Failed ''Failed to get response. Please try again.''), [])"
    by (simp add: prod_eq_iff)
  with th k show ?thesis by blast
qed

lemma those_None: "x \<in> set xs \<Longrightarrow> p x = None \<Longrightarrow> those (map p xs) = None"
  by (induction xs) (auto split: option.splits)

lemma rejects_pageContext:
  "map_of kvs ''pageContext'' = Some (JStr p) \<Longrightarrow>
   p \<notin> {''dashboard'', ''medications'', ''reports''} \<Longrightarrow>
   GlobalAssistantActionInput (JObj kvs) = None"
  by (simp add: GlobalAssistantActionInput_def input_schema_def)

lemma rejects_empty_message:
  "map_of kvs ''userMessage'' = Some (JStr []) \<Longrightarrow> GlobalAssistantActionInput (JObj kvs) = None"
  by (simp add: GlobalAssistantActionInput_def input_schema_def Option.bind_eq_None_conv)

lemma rejects_malformed_medication:
  "map_of kvs ''medications'' = Some (JArr ms) \<Longrightarrow> m \<in> set ms \<Longrightarrow> z_Medication m = None \<Longrightarrow>
   GlobalAssistantActionInput (JObj kvs) = None"
  by (simp add: GlobalAssistantActionInput_def input_schema_def Option.bind_eq_None_conv those_None)

lemma rejects_malformed_log:
  "map_of kvs ''todayLogs'' = Some (JArr ls) \<Longrightarrow> l \<in> set ls \<Longrightarrow> z_IntakeLog l = None \<Longrightarrow>
   GlobalAssistantActionInput (JObj kvs) = None"
  by (simp add: GlobalAssistantActionInput_def input_schema_def Option.bind_eq_None_conv those_None)

lemma rejects_malformed_stats:
  "map_of kvs ''adherenceStats'' = Some s \<Longrightarrow> z_AdherenceStats s = None \<Longrightarrow>
   GlobalAssistantActionInput (JObj kvs) = None"
  by (simp add: GlobalAssistantActionInput_def input_schema_def Option.bind_eq_None_conv)

text \<open>
  C7. For every input that fails the schema of the server action (among them: a page
  context outside the three, an empty message, a malformed medication, log or statistics
  entry), the call throws the error \<^verbatim>\<open>Invalid input.\<close> and sends no provider request;
  no input that passes the schema gives that outcome, so it is distinct from the
  \<^verbatim>\<open>{error}\<close> result of a provider or runtime failure. The server action records no
  turn; on the component's side an empty message text is stopped with no turn recorded
  and no call made, and every request the component does send passes the schema.
\<close>

theorem invalid_input_fails_fast:
  assumes "GlobalAssistantActionInput i = None"
  shows "getGlobalAssistantResponse rt i = (Inl (Error ''Invalid input.''), [])
     \<and> (\<forall>e sent. getGlobalAssistantResponse rt i \<noteq> (Inr (Failed e), sent))
     \<and> (\<forall>rt' j. GlobalAssistantActionInput j \<noteq> None \<longrightarrow>
          fst (getGlobalAssistantResponse rt' j) \<noteq> fst (getGlobalAssistantResponse rt i))
     \<and> (\<forall>rd m st. message_text m (input st) = [] \<longrightarrow> handleSend rd m st = st)
     \<and> (\<forall>rd m (st :: assistant_state). message_text m (input st) \<noteq> [] \<longrightarrow>
          GlobalAssistantActionInput
            (GlobalAssistantInput_obj (request rd (message_text m (input st)))) \<noteq> None)"
proof -
  have a: "getGlobalAssistantResponse rt i = (Inl (Error ''Invalid input.''), [])"
    using assms by (simp add: getGlobalAssistantResponse_def)
  have b: "fst (getGlobalAssistantResponse rt' j) \<noteq> Inl (Error ''Invalid input.'')"
    if "GlobalAssistantActionInput j \<noteq> None" for rt' j
    using that by (auto simp: getGlobalAssistantResponse_def split: prod.splits sum.splits)
  have c: "handleSend rd m st = st" if "message_text m (input st) = []" for rd m st
    using that by (rule handleSend_empty)
  have d: "GlobalAssistantActionInput
            (GlobalAssistantInput_obj (request rd (message_text m (input st)))) \<noteq> None"
    if "message_text m (input st) \<noteq> []" for rd m st
    using that by (simp add: action_input_obj request_fields)
  show ?thesis
  proof (intro conjI allI impI)
    show "getGlobalAssistantResponse rt i = (Inl (Error ''Invalid input.''), [])" by (rule a)
  next
    fix e sent
    show "getGlobalAssistantResponse rt i \<noteq> (Inr (Failed e), sent)" by (simp add: a)
  next
    fix rt' j
    assume "GlobalAssistantActionInput j \<noteq> None"
    then show "fst (getGlobalAssistantResponse rt' j) \<noteq> fst (getGlobalAssistantResponse rt i)"
      using b [of j rt'] by (simp add: a)
  next
    fix rd m and st :: assistant_state
    assume "message_text m (input st) = []"
    then show "handleSend rd m st = st" by (rule c)
  next
    fix rd m and st :: assistant_state
    assume "message_text m (input st) \<noteq> []"
    then show "GlobalAssistantActionInput
            (GlobalAssistantInput_obj (request rd (message_text m (input st)))) \<noteq> None"
      by (rule d)
  qed
qed

lemma invalid_examples:
  "GlobalAssistantActionInput
     (JObj [(''pageContext'', JStr ''settings''), (''userMessage'', JStr ''hi''),
            (''medications'', JArr [])]) = None"
  "GlobalAssistantActionInput
     (JObj [(''pageContext'', JStr ''dashboard''), (''userMessage'', JStr []),
            (''medications'', JArr [])]) = None"
  "GlobalAssistantActionInput
     (JObj [(''pageContext'', JStr ''dashboard''), (''userMessage'', JStr ''hi''),
            (''medications'', JArr [JObj [(''name'', JStr ''Aspirin'')]])]) = None"
  "GlobalAssistantActionInput
     (JObj [(''pageContext'', JStr ''dashboard''), (''userMessage'', JStr ''hi''),
            (''medications'', JArr []),
            (''todayLogs'', JArr [JObj [(''medicationName'', JStr ''Aspirin''),
                                        (''time'', JStr ''2026-11-01T08:00:00.000Z''),
                                        (''status'', JStr ''late'')]])]) = None"
  "GlobalAssistantActionInput
     (JObj [(''pageContext'', JStr ''dashboard''), (''userMessage'', JStr ''hi''),
            (''medications'', JArr []),
            (''adherenceStats'', JObj [(''totalScheduled'', JNum 8), (''totalTaken'', JNum 6),
                                       (''adherenceRate'', JStr ''75%'')])]) = None"
proof -
  show "GlobalAssistantActionInput
     (JObj [(''pageContext'', JStr ''settings''), (''userMessage'', JStr ''hi''),
            (''medications'', JArr [])]) = None"
    by (rule rejects_pageContext [where p = "''settings''"]) simp_all
  show "GlobalAssistantActionInput
     (JObj [(''pageContext'', JStr ''dashboard''), (''userMessage'', JStr []),
            (''medications'', JArr [])]) = None"
    by (rule rejects_empty_message) simp
  show "GlobalAssistantActionInput
     (JObj [(''pageContext'', JStr ''dashboard''), (''userMessage'', JStr ''hi''),
            (''medications'', JArr [JObj [(''name'', JStr ''Aspirin'')]])]) = None"
    by (rule rejects_malformed_medication
              [where ms = "[JObj [(''name'', JStr ''Aspirin'')]]"
                 and m = "JObj [(''name'', JStr ''Aspirin'')]"])
       (simp_all add: z_Medication_def)
  show "GlobalAssistantActionInput
     (JObj [(''pageContext'', JStr ''dashboard''), (''userMessage'', JStr ''hi''),
            (''medications'', JArr []),
            (''todayLogs'', JArr [JObj [(''medicationName'', JStr ''Aspirin''),
                                        (''time'', JStr ''2026-11-01T08:00:00.000Z''),
                                        (''status'', JStr ''late'')]])]) = None"
    by (rule rejects_malformed_log
              [where ls = "[JObj [(''medicationName'', JStr ''Aspirin''),
                                  (''time'', JStr ''2026-11-01T08:00:00.000Z''),
                                  (''status'', JStr ''late'')]]"
                 and l = "JObj [(''medicationName'', JStr ''Aspirin''),
                                (''time'', JStr ''2026-11-01T08:00:00.000Z''),
                                (''status'', JStr ''late'')]"])
       (simp_all add: z_IntakeLog_def)
  show "GlobalAssistantActionInput
     (JObj [(''pageContext'', JStr ''dashboard''), (''userMessage'', JStr ''hi''),
            (''medications'', JArr []),
            (''adherenceStats'', JObj [(''totalScheduled'', JNum 8), (''totalTaken'', JNum 6),
                                       (''adherenceRate'', JStr ''75%'')])]) = None"
    by (rule rejects_malformed_stats
              [where s = "JObj [(''totalScheduled'', JNum 8), (''totalTaken'', JNum 6),
                                (''adherenceRate'', JStr ''75%'')]"])
       (simp_all add: z_AdherenceStats_def)
qed

theorem invalid_input_fails_fast_witness:
  "GlobalAssistantActionInput
     (JObj [(''pageContext'', JStr ''settings''), (''userMessage'', JStr ''hi''),
            (''medications'', JArr [])]) = None
   \<and> getGlobalAssistantResponse failing_provider
       (JObj [(''pageContext'', JStr ''settings''), (''userMessage'', JStr ''hi''),
              (''medications'', JArr [])]) = (Inl (Error ''Invalid input.''), [])
   \<and> getGlobalAssistantResponse failing_provider
       (JObj [(''pageContext'', JStr ''dashboard''), (''userMessage'', JStr []),
              (''medications'', JArr [])]) = (Inl (Error ''Invalid input.''), [])
   \<and> getGlobalAssistantResponse failing_provider
       (JObj [(''pageContext'', JStr ''dashboard''), (''userMessage'', JStr ''hi''),
              (''medications'', JArr [JObj [(''name'', JStr ''Aspirin'')]])])
       = (Inl (Error ''Invalid input.''), [])
   \<and> getGlobalAssistantResponse failing_provider
       (JObj [(''pageContext'', JStr ''dashboard''), (''userMessage'', JStr ''hi''),
              (''medications'', JArr []),
              (''todayLogs'', JArr [JObj [(''medicationName'', JStr ''Aspirin''),
                                          (''time'', JStr ''2026-11-01T08:00:00.000Z''),
                                          (''status'', JStr ''late'')]])])
       = (Inl (Error ''Invalid input.''), [])
   \<and> getGlobalAssistantResponse failing_provider
       (JObj [(''pageContext'', JStr ''dashboard''), (''userMessage'', JStr ''hi''),
              (''medications'', JArr []),
              (''adherenceStats'', JObj [(''totalScheduled'', JNum 8), (''totalTaken'', JNum 6),
                                         (''adherenceRate'', JStr ''75%'')])])
       = (Inl (Error ''Invalid input.''), [])"
  using invalid_examples(1)
    invalid_input_fails_fast [OF invalid_examples(1), of failing_provider, THEN conjunct1]
    invalid_input_fails_fast [OF invalid_examples(2), of failing_provider, THEN conjunct1]
    invalid_input_fails_fast [OF invalid_examples(3), of failing_provider, THEN conjunct1]
    invalid_input_fails_fast [OF invalid_examples(4), of failing_provider, THEN conjunct1]
    invalid_input_fails_fast [OF invalid_examples(5), of failing_provider, THEN conjunct1]
  by blast


end
